theory Spec2Isabelle
  imports Main
begin

section \<open>Errors and tensors\<close>

text \<open>
  The Python exceptions that the modelled functions of \<^verbatim>\<open>memtrans.py\<close> can raise.
  An \<^verbatim>\<open>assert\<close> that fails is \<open>AssertionError\<close>; \<^verbatim>\<open>raise ValueError(...)\<close>, a numpy
  assignment to a read-only memmap and a failed broadcast are \<open>ValueError\<close>; a method
  call on \<^verbatim>\<open>None\<close> is \<open>AttributeError\<close>; item access or assignment on \<^verbatim>\<open>None\<close> is
  \<open>TypeError\<close>; \<^verbatim>\<open>torch.stack\<close> of an empty list and a shape mismatch inside torch are
  \<open>RuntimeError\<close>.
\<close>

datatype error =
    AssertionError
  | ValueError
  | AttributeError
  | TypeError
  | IndexError
  | RuntimeError
  | NotImplementedError

text \<open>
  A tensor is its shape together with its entries as nested lists, so that a shape
  with a zero dimension such as \<open>(n_heads, batch, 0, dim)\<close> is still a value.
  One-dimensional tensors are plain lists.
\<close>

record ('s, 'd) tensor =
  shape :: 's
  body :: 'd

type_synonym 'a tensor2 = "(nat \<times> nat, 'a list list) tensor"
type_synonym 'a tensor3 = "(nat \<times> nat \<times> nat, 'a list list list) tensor"
type_synonym 'a tensor4 = "(nat \<times> nat \<times> nat \<times> nat, 'a list list list list) tensor"

text \<open>The entries of a tensor fit its shape.\<close>

definition wf2 :: "'a tensor2 \<Rightarrow> bool" where
  "wf2 t = (case shape t of (a, b) \<Rightarrow>
     length (body t) = a \<and> list_all (\<lambda>x. length x = b) (body t))"

definition wf3 :: "'a tensor3 \<Rightarrow> bool" where
  "wf3 t = (case shape t of (a, b, c) \<Rightarrow>
     length (body t) = a \<and>
     list_all (\<lambda>x. length x = b \<and> list_all (\<lambda>y. length y = c) x) (body t))"

definition wf4 :: "'a tensor4 \<Rightarrow> bool" where
  "wf4 t = (case shape t of (a, b, c, d) \<Rightarrow>
     length (body t) = a \<and>
     list_all (\<lambda>x. length x = b \<and>
       list_all (\<lambda>y. length y = c \<and> list_all (\<lambda>z. length z = d) y) x) (body t))"

text \<open>
  Python slicing: the position a slice bound \<open>i\<close> denotes on an axis of length \<open>n\<close>
  (a negative bound counts from the end, and every bound is clipped to the axis).
\<close>

definition py_index :: "int \<Rightarrow> nat \<Rightarrow> nat" where
  "py_index i n = (if i < 0 then nat (max (i + int n) 0) else min (nat i) n)"

text \<open>
  numpy broadcasting of an axis of length 1 to length \<open>n\<close> (used after the shapes have
  been checked: the axis has length \<open>n\<close> or 1).
\<close>

definition bcast :: "nat \<Rightarrow> 'a list \<Rightarrow> 'a list" where
  "bcast n xs = (if length xs = n then xs else replicate n (hd xs))"

text \<open>
  \<^verbatim>\<open>a[lo:hi] = b\<close> on a one-dimensional numpy array: \<open>b\<close> must have the length of the
  slice or length 1, else numpy raises ValueError.
\<close>

definition np_setitem1 :: "'a list \<Rightarrow> int \<Rightarrow> int \<Rightarrow> 'a list \<Rightarrow> error + 'a list" where
  "np_setitem1 a lo hi b =
     (let start = py_index lo (length a);
          n = py_index hi (length a) - start
      in if length b = n \<or> length b = 1
         then Inr (take start a @ bcast n b @ drop (start + n) a)
         else Inl ValueError)"

text \<open>
  \<^verbatim>\<open>a[:, lo:hi] = b\<close> on a three-dimensional numpy array with a three-dimensional right
  side: every axis of \<open>b\<close> must have the length of the target's or length 1.
\<close>

definition np_setitem3 :: "'a tensor3 \<Rightarrow> int \<Rightarrow> int \<Rightarrow> 'a tensor3 \<Rightarrow> error + 'a tensor3" where
  "np_setitem3 a lo hi b =
     (case shape a of (s0, s1, s2) \<Rightarrow>
      case shape b of (r0, r1, r2) \<Rightarrow>
        (let start = py_index lo s1;
             n = py_index hi s1 - start
         in if (r0 = s0 \<or> r0 = 1) \<and> (r1 = n \<or> r1 = 1) \<and> (r2 = s2 \<or> r2 = 1)
            then Inr (a\<lparr>body :=
                   map (\<lambda>(rows, new). take start rows @ new @ drop (start + n) rows)
                     (zip (body a) (bcast s0 (map (\<lambda>h. bcast n (map (bcast s2) h)) (body b))))\<rparr>)
            else Inl ValueError))"

text \<open>\<^verbatim>\<open>t[:, :n]\<close> on a three-dimensional tensor.\<close>

definition slice_axis1 :: "int \<Rightarrow> 'a tensor3 \<Rightarrow> 'a tensor3" where
  "slice_axis1 n t =
     (case shape t of (s0, s1, s2) \<Rightarrow>
        \<lparr>shape = (s0, py_index n s1, s2), body = map (take (py_index n s1)) (body t)\<rparr>)"

text \<open>\<^verbatim>\<open>.astype(np.int32)\<close> on an integer: the low 32 bits, read as a signed number.\<close>

definition astype_int32 :: "int \<Rightarrow> int" where
  "astype_int32 x = (x + 2147483648) mod 4294967296 - 2147483648"

section \<open>MemTransDatastore\<close>

text \<open>
  The fields of \<^verbatim>\<open>MemTransDatastore\<close> that the modelled methods read or write.
  \<open>dstore_size\<close> is \<^verbatim>\<open>self.size\<close>, \<open>dstore_keys\<close> and \<open>dstore_values\<close> are \<^verbatim>\<open>self.keys\<close> and
  \<^verbatim>\<open>self.values\<close> (memmaps of shape \<open>(n_heads, size, dimension)\<close>); \<open>mode\<close> is the mode the
  memmaps were opened with by \<^verbatim>\<open>load_or_init_dstore\<close> (\<^verbatim>\<open>'r'\<close> when the key file
  exists, \<^verbatim>\<open>'w+'\<close> otherwise); \<open>tokens\<close> and \<open>ids\<close> are \<^verbatim>\<open>None\<close> when opening them
  failed; \<open>labels\<close> and \<open>decoder_input_ids\<close> are \<^verbatim>\<open>self._labels\<close> and
  \<^verbatim>\<open>self._decoder_input_ids\<close>. The element type \<open>'f\<close> stands for float32: on it
  \<^verbatim>\<open>.astype(np.float32)\<close> changes nothing.
\<close>

datatype memmap_mode = Mode_r | Mode_w_plus

record 'f MemTransDatastore =
  dstore_size :: int
  dimension :: int
  n_heads :: int
  cur_idx :: int
  mode :: memmap_mode
  dstore_keys :: "'f tensor3"
  dstore_values :: "'f tensor3"
  tokens :: "int list option"
  ids :: "int list option"
  labels :: "int list list option"
  decoder_input_ids :: "int list list option"

text \<open>
  \<^verbatim>\<open>save_key_value\<close> (lines 96--129). Python keeps every assignment made before an
  exception, so the method returns the store as the call leaves it together with the
  exception raised, if any. The chained comparison of the first assertion evaluates
  \<^verbatim>\<open>tokens.size(0)\<close> and \<^verbatim>\<open>ids.size(0)\<close> only as far as the comparison gets, and
  either raises AttributeError on \<^verbatim>\<open>None\<close>. Writing through a memmap opened with mode
  \<^verbatim>\<open>'r'\<close> raises ValueError before anything is stored. \<open>cur_idx\<close> is assigned on the
  last line only.
\<close>

text \<open>
  The four assignments of the \<^verbatim>\<open>try\<close> block (lines 117--123), one after the other;
  \<open>nt\<close> is the number of entries after truncation.
\<close>

definition write_keys ::
  "'f MemTransDatastore \<Rightarrow> int \<Rightarrow> 'f tensor3 \<Rightarrow> 'f MemTransDatastore \<times> error option" where
  "write_keys self nt keys1 =
     (case np_setitem3 (dstore_keys self) (cur_idx self) (nt + cur_idx self) keys1 of
        Inl e \<Rightarrow> (self, Some e)
      | Inr k \<Rightarrow> (self\<lparr>dstore_keys := k\<rparr>, None))"

definition write_values ::
  "'f MemTransDatastore \<Rightarrow> int \<Rightarrow> 'f tensor3 \<Rightarrow> 'f MemTransDatastore \<times> error option" where
  "write_values self nt vals1 =
     (case np_setitem3 (dstore_values self) (cur_idx self) (nt + cur_idx self) vals1 of
        Inl e \<Rightarrow> (self, Some e)
      | Inr v \<Rightarrow> (self\<lparr>dstore_values := v\<rparr>, None))"

definition write_tokens ::
  "'f MemTransDatastore \<Rightarrow> int \<Rightarrow> int list \<Rightarrow> 'f MemTransDatastore \<times> error option" where
  "write_tokens self nt toks1 =
     (case tokens self of
        None \<Rightarrow> (self, Some TypeError)
      | Some tstore \<Rightarrow>
          (case np_setitem1 tstore (cur_idx self) (nt + cur_idx self) (map astype_int32 toks1) of
             Inl e \<Rightarrow> (self, Some e)
           | Inr t \<Rightarrow> (self\<lparr>tokens := Some t\<rparr>, None)))"

definition write_ids ::
  "'f MemTransDatastore \<Rightarrow> int \<Rightarrow> int list \<Rightarrow> 'f MemTransDatastore \<times> error option" where
  "write_ids self nt ids1 =
     (case ids self of
        None \<Rightarrow> (self, Some TypeError)
      | Some istore \<Rightarrow>
          (case np_setitem1 istore (cur_idx self) (nt + cur_idx self) (map astype_int32 ids1) of
             Inl e \<Rightarrow> (self, Some e)
           | Inr i \<Rightarrow> (self\<lparr>ids := Some i\<rparr>, None)))"

text \<open>Run \<open>g\<close> on the state that \<open>r\<close> left, unless \<open>r\<close> raised.\<close>

definition and_then ::
  "'s \<times> error option \<Rightarrow> ('s \<Rightarrow> 's \<times> error option) \<Rightarrow> 's \<times> error option" where
  "and_then r g = (case snd r of Some e \<Rightarrow> r | None \<Rightarrow> g (fst r))"

definition save_to_memmap ::
  "'f MemTransDatastore \<Rightarrow> int \<Rightarrow> 'f tensor3 \<Rightarrow> 'f tensor3 \<Rightarrow> int list \<Rightarrow> int list
     \<Rightarrow> 'f MemTransDatastore \<times> error option" where
  "save_to_memmap self nt keys1 vals1 toks1 ids1 =
     (if mode self = Mode_r then (self, Some ValueError)
      else and_then (and_then (and_then (write_keys self nt keys1)
             (\<lambda>s. write_values s nt vals1))
             (\<lambda>s. write_tokens s nt toks1))
             (\<lambda>s. write_ids s nt ids1))"

text \<open>
  The assertions of lines 103--108, in the order Python evaluates them: \<open>None\<close> when
  all pass.
\<close>

definition save_asserts ::
  "'f MemTransDatastore \<Rightarrow> 'f tensor3 \<Rightarrow> 'f tensor3 \<Rightarrow> int list option \<Rightarrow> int list option
     \<Rightarrow> error option" where
  "save_asserts self keys vals tokens_arg ids_arg =
     (if fst (snd (shape keys)) \<noteq> fst (snd (shape vals)) then Some AssertionError
      else if tokens_arg = None then Some AttributeError
      else if fst (snd (shape vals)) \<noteq> length (the tokens_arg) then Some AssertionError
      else if ids_arg = None then Some AttributeError
      else if length (the tokens_arg) \<noteq> length (the ids_arg) then Some AssertionError
      else if \<not> (int (fst (shape keys)) = n_heads self
                \<and> int (snd (snd (shape keys))) = dimension self) then Some AssertionError
      else if \<not> cur_idx self \<le> dstore_size self then Some AssertionError
      else None)"

definition save_key_value ::
  "'f MemTransDatastore \<Rightarrow> 'f tensor3 \<Rightarrow> 'f tensor3 \<Rightarrow> int list option \<Rightarrow> int list option
     \<Rightarrow> 'f MemTransDatastore \<times> error option" where
  "save_key_value self keys vals tokens_arg ids_arg =
     (case save_asserts self keys vals tokens_arg ids_arg of
        Some e \<Rightarrow> (self, Some e)
      | None \<Rightarrow>
         (let nt0 = int (fst (snd (shape keys)));
              toks0 = the tokens_arg;
              ids0 = the ids_arg;
              trunc = (cur_idx self + nt0 > dstore_size self);
              nt = (if trunc then dstore_size self - cur_idx self else nt0);
              keys1 = (if trunc then slice_axis1 nt keys else keys);
              vals1 = (if trunc then slice_axis1 nt vals else vals);
              toks1 = (if trunc then take (py_index nt (length toks0)) toks0 else toks0);
              ids1 = (if trunc then take (py_index nt (length ids0)) ids0 else ids0)
          in and_then (save_to_memmap self nt keys1 vals1 toks1 ids1)
               (\<lambda>s. (s\<lparr>cur_idx := cur_idx s + nt\<rparr>, None))))"

text \<open>
  A sequence of \<^verbatim>\<open>save_key_value\<close> calls on one store: the stores after each call, in
  order. A call that raised leaves the store as it was when the exception occurred,
  and the next call starts from there.
\<close>

type_synonym 'f kv_batch = "'f tensor3 \<times> 'f tensor3 \<times> int list option \<times> int list option"

fun save_sequence :: "'f MemTransDatastore \<Rightarrow> 'f kv_batch list \<Rightarrow> 'f MemTransDatastore list" where
  "save_sequence self [] = []"
| "save_sequence self ((k, v, t, i) # bs) =
     (let self' = fst (save_key_value self k v t i) in self' # save_sequence self' bs)"

text \<open>
  The store as \<^verbatim>\<open>__init__\<close> leaves it and as every successful call keeps it: arrays of
  the configured shape, opened for writing, and \<open>0 \<le> cur_idx \<le> size\<close>.
\<close>

definition wf_dstore :: "'f MemTransDatastore \<Rightarrow> bool" where
  "wf_dstore self =
     (0 \<le> n_heads self \<and> 0 \<le> dimension self \<and> 0 \<le> cur_idx self
      \<and> cur_idx self \<le> dstore_size self
      \<and> mode self = Mode_w_plus
      \<and> shape (dstore_keys self) = (nat (n_heads self), nat (dstore_size self), nat (dimension self))
      \<and> shape (dstore_values self) = (nat (n_heads self), nat (dstore_size self), nat (dimension self))
      \<and> wf3 (dstore_keys self) \<and> wf3 (dstore_values self)
      \<and> (case tokens self of None \<Rightarrow> False | Some t \<Rightarrow> length t = nat (dstore_size self))
      \<and> (case ids self of None \<Rightarrow> False | Some i \<Rightarrow> length i = nat (dstore_size self)))"

text \<open>The entries \<open>lo, ..., lo + n - 1\<close> of every head of a stored array.\<close>

definition stored_rows :: "'a tensor3 \<Rightarrow> nat \<Rightarrow> nat \<Rightarrow> 'a list list list" where
  "stored_rows a lo n = map (\<lambda>rows. take n (drop lo rows)) (body a)"

subsection \<open>The write offset\<close>

lemma and_then_simps:
  "and_then (s, None) g = g s"
  "and_then (s, Some e) g = (s, Some e)"
  by (simp_all add: and_then_def)

lemma write_keys_frame:
  "cur_idx (fst (write_keys self nt k)) = cur_idx self"
  "dstore_size (fst (write_keys self nt k)) = dstore_size self"
  by (simp_all add: write_keys_def split: sum.splits)

lemma write_values_frame:
  "cur_idx (fst (write_values self nt k)) = cur_idx self"
  "dstore_size (fst (write_values self nt k)) = dstore_size self"
  by (simp_all add: write_values_def split: sum.splits)

lemma write_tokens_frame:
  "cur_idx (fst (write_tokens self nt k)) = cur_idx self"
  "dstore_size (fst (write_tokens self nt k)) = dstore_size self"
  by (simp_all add: write_tokens_def split: sum.splits option.splits)

lemma write_ids_frame:
  "cur_idx (fst (write_ids self nt k)) = cur_idx self"
  "dstore_size (fst (write_ids self nt k)) = dstore_size self"
  by (simp_all add: write_ids_def split: sum.splits option.splits)

lemma and_then_pres:
  "(\<And>s. f (fst (g s)) = f s) \<Longrightarrow> f (fst (and_then r g)) = f (fst r)"
  by (cases r) (auto simp: and_then_def split: option.splits)

lemma save_to_memmap_frame:
  "cur_idx (fst (save_to_memmap self nt k v t i)) = cur_idx self"
  "dstore_size (fst (save_to_memmap self nt k v t i)) = dstore_size self"
  by (simp_all add: save_to_memmap_def and_then_pres write_keys_frame write_values_frame
        write_tokens_frame write_ids_frame)

lemma save_advance:
  "cur_idx (fst (and_then (save_to_memmap self nt k v t i)
      (\<lambda>s. (s\<lparr>cur_idx := cur_idx s + nt\<rparr>, None)))) \<in> {cur_idx self, cur_idx self + nt}"
  "dstore_size (fst (and_then (save_to_memmap self nt k v t i)
      (\<lambda>s. (s\<lparr>cur_idx := cur_idx s + nt\<rparr>, None)))) = dstore_size self"
  by (auto simp: and_then_def save_to_memmap_frame split: option.splits)

lemma save_key_value_step:
  "cur_idx self \<le> cur_idx (fst (save_key_value self k v t i))
   \<and> dstore_size (fst (save_key_value self k v t i)) = dstore_size self
   \<and> (cur_idx self \<le> dstore_size self \<longrightarrow>
        cur_idx (fst (save_key_value self k v t i)) \<le> dstore_size self)"
proof (cases "save_asserts self k v t i")
  case (Some e)
  then show ?thesis by (simp add: save_key_value_def)
next
  case None
  then have le: "cur_idx self \<le> dstore_size self"
    by (auto simp: save_asserts_def split: if_splits)
  define nt where "nt = (if cur_idx self + int (fst (snd (shape k))) > dstore_size self
     then dstore_size self - cur_idx self else int (fst (snd (shape k))))"
  have nt: "0 \<le> nt" "cur_idx self + nt \<le> dstore_size self"
    using le by (auto simp: nt_def)
  obtain k1 v1 t1 i1 where
    eq: "save_key_value self k v t i = and_then (save_to_memmap self nt k1 v1 t1 i1)
          (\<lambda>s. (s\<lparr>cur_idx := cur_idx s + nt\<rparr>, None))"
    using None by (simp add: save_key_value_def Let_def nt_def)
  from save_advance [of self nt k1 v1 t1 i1] nt le show ?thesis
    unfolding eq by auto
qed

lemma save_sequence_sorted:
  "sorted (map cur_idx (self # save_sequence self bs))"
proof (induction bs arbitrary: self)
  case Nil
  then show ?case by simp
next
  case (Cons b bs)
  obtain k v t i where b: "b = (k, v, t, i)" by (cases b) auto
  let ?s = "fst (save_key_value self k v t i)"
  have 1: "cur_idx self \<le> cur_idx ?s" using save_key_value_step by blast
  have 2: "sorted (map cur_idx (?s # save_sequence ?s bs))" by (rule Cons.IH)
  from 1 2 show ?case by (auto simp: b Let_def)
qed

lemma save_sequence_bound:
  "cur_idx self \<le> dstore_size self \<Longrightarrow> s \<in> set (save_sequence self bs) \<Longrightarrow>
     cur_idx s \<le> dstore_size s \<and> dstore_size s = dstore_size self"
proof (induction bs arbitrary: self)
  case Nil
  then show ?case by simp
next
  case (Cons b bs)
  obtain k v t i where b: "b = (k, v, t, i)" by (cases b) auto
  let ?s = "fst (save_key_value self k v t i)"
  have 1: "cur_idx ?s \<le> dstore_size ?s" "dstore_size ?s = dstore_size self"
    using save_key_value_step [of self k v t i] Cons.prems(1) by auto
  from Cons.prems(2) have "s = ?s \<or> s \<in> set (save_sequence ?s bs)"
    by (auto simp: b Let_def)
  then show ?case
  proof
    assume "s = ?s" with 1 show ?thesis by simp
  next
    assume "s \<in> set (save_sequence ?s bs)"
    from Cons.IH [OF 1(1) this] 1 show ?thesis by simp
  qed
qed

lemma bcast_same: "length xs = n \<Longrightarrow> bcast n xs = xs"
  by (simp add: bcast_def)

lemma py_index_nonneg: "0 \<le> i \<Longrightarrow> py_index i n = min (nat i) n"
  by (simp add: py_index_def)

lemma np_setitem1_exact:
  assumes "0 \<le> lo" "nat lo + length b \<le> length a"
  shows "np_setitem1 a lo (int (length b) + lo) b
           = Inr (take (nat lo) a @ b @ drop (nat lo + length b) a)"
proof -
  have 1: "py_index lo (length a) = nat lo"
    using assms by (simp add: py_index_nonneg)
  have 2: "py_index (int (length b) + lo) (length a) = nat lo + length b"
    using assms by (simp add: py_index_nonneg nat_add_distrib)
  show ?thesis
    by (simp add: np_setitem1_def Let_def 1 2 bcast_same)
qed

text \<open>What \<^verbatim>\<open>a[:, lo:lo+n] = b\<close> leaves in every head when the shapes agree.\<close>

definition put_rows :: "nat \<Rightarrow> nat \<Rightarrow> 'a list list list \<Rightarrow> 'a list list list \<Rightarrow> 'a list list list" where
  "put_rows lo n a b = map (\<lambda>(rows, new). take lo rows @ new @ drop (lo + n) rows) (zip a b)"

lemma wf3_bcast_body:
  assumes "wf3 b" "shape b = (s0, n, s2)"
  shows "bcast s0 (map (\<lambda>h. bcast n (map (bcast s2) h)) (body b)) = body b"
proof -
  have len: "length (body b) = s0"
    and rows: "\<And>h. h \<in> set (body b) \<Longrightarrow> length h = n \<and> (\<forall>y\<in>set h. length y = s2)"
    using assms by (auto simp: wf3_def list_all_iff)
  have "map (\<lambda>h. bcast n (map (bcast s2) h)) (body b) = map (\<lambda>h. h) (body b)"
  proof (rule map_cong [OF refl])
    fix h assume h: "h \<in> set (body b)"
    have "map (bcast s2) h = map (\<lambda>y. y) h"
      by (rule map_cong [OF refl]) (use rows [OF h] in \<open>simp add: bcast_same\<close>)
    then show "bcast n (map (bcast s2) h) = h"
      using rows [OF h] by (simp add: bcast_same)
  qed
  then show ?thesis using len by (simp add: bcast_same)
qed

lemma np_setitem3_exact:
  assumes "wf3 b" "shape a = (s0, s1, s2)" "shape b = (s0, n, s2)" "0 \<le> lo" "nat lo + n \<le> s1"
  shows "np_setitem3 a lo (int n + lo) b = Inr (a\<lparr>body := put_rows (nat lo) n (body a) (body b)\<rparr>)"
proof -
  have 1: "py_index lo s1 = nat lo"
    using assms by (simp add: py_index_nonneg)
  have 2: "py_index (int n + lo) s1 = nat lo + n"
    using assms by (simp add: py_index_nonneg nat_add_distrib)
  show ?thesis
    using assms(2,3) by (simp add: np_setitem3_def Let_def 1 2 wf3_bcast_body [OF assms(1,3)] put_rows_def)
qed

lemma stored_rows_put:
  assumes "length a = length b" "\<forall>rows\<in>set a. lo \<le> length rows" "\<forall>new\<in>set b. length new = n"
  shows "map (\<lambda>rows. take n (drop lo rows)) (put_rows lo n a b) = b"
proof -
  have "map (\<lambda>rows. take n (drop lo rows)) (put_rows lo n a b) = map snd (zip a b)"
    unfolding put_rows_def map_map
  proof (rule map_cong [OF refl])
    fix p assume "p \<in> set (zip a b)"
    then have "(fst p, snd p) \<in> set (zip a b)" by simp
    then have "fst p \<in> set a" "snd p \<in> set b"
      by (rule set_zip_leftD, rule set_zip_rightD)
    then have "lo \<le> length (fst p)" "length (snd p) = n" using assms by auto
    then show "((\<lambda>rows. take n (drop lo rows)) \<circ> (\<lambda>(rows, new). take lo rows @ new @ drop (lo + n) rows)) p = snd p"
      by (cases p) simp
  qed
  also have "\<dots> = b" using assms(1) by simp
  finally show ?thesis .
qed

lemma put_rows_nothing:
  assumes "length a = length b" "\<forall>new\<in>set b. new = []"
  shows "put_rows lo 0 a b = a"
proof -
  have "put_rows lo 0 a b = map fst (zip a b)"
    unfolding put_rows_def
  proof (rule map_cong [OF refl])
    fix p assume "p \<in> set (zip a b)"
    then have "(fst p, snd p) \<in> set (zip a b)" by simp
    then have "snd p \<in> set b" by (rule set_zip_rightD)
    then have "snd p = []" using assms by auto
    then show "(case p of (rows, new) \<Rightarrow> take lo rows @ new @ drop (lo + 0) rows) = fst p"
      by (cases p) simp
  qed
  also have "\<dots> = a" using assms(1) by simp
  finally show ?thesis .
qed


text \<open>
  The precondition of an append: a store in the state \<open>wf_dstore\<close>, and keys and values
  of shape \<open>(n_heads, n_new, dimension)\<close> with \<open>n_new\<close> tokens and ids.
\<close>

definition fits_store ::
  "'f MemTransDatastore \<Rightarrow> 'f tensor3 \<Rightarrow> 'f tensor3 \<Rightarrow> int list \<Rightarrow> int list \<Rightarrow> bool" where
  "fits_store self keys vals toks idl =
     (wf_dstore self \<and> wf3 keys \<and> wf3 vals
      \<and> shape keys = (nat (n_heads self), length toks, nat (dimension self))
      \<and> shape vals = shape keys \<and> length idl = length toks)"

lemma save_to_memmap_exact:
  assumes wf: "wf_dstore self" and k: "wf3 k" "shape k = (nat (n_heads self), n, nat (dimension self))"
    and v: "wf3 v" "shape v = shape k" and t: "length t = n" and i: "length i = n"
    and fit: "cur_idx self + int n \<le> dstore_size self"
  shows "save_to_memmap self (int n) k v t i =
     (self\<lparr>dstore_keys := (dstore_keys self)\<lparr>body := put_rows (nat (cur_idx self)) n (body (dstore_keys self)) (body k)\<rparr>,
           dstore_values := (dstore_values self)\<lparr>body := put_rows (nat (cur_idx self)) n (body (dstore_values self)) (body v)\<rparr>,
           tokens := Some (take (nat (cur_idx self)) (the (tokens self)) @ map astype_int32 t
                       @ drop (nat (cur_idx self) + n) (the (tokens self))),
           ids := Some (take (nat (cur_idx self)) (the (ids self)) @ map astype_int32 i
                       @ drop (nat (cur_idx self) + n) (the (ids self)))\<rparr>, None)"
proof -
  from wf have c0: "0 \<le> cur_idx self" and m: "mode self = Mode_w_plus"
    and sk: "shape (dstore_keys self) = (nat (n_heads self), nat (dstore_size self), nat (dimension self))"
    and sv: "shape (dstore_values self) = (nat (n_heads self), nat (dstore_size self), nat (dimension self))"
    by (simp_all add: wf_dstore_def)
  from wf obtain ts where ts: "tokens self = Some ts" "length ts = nat (dstore_size self)"
    by (auto simp: wf_dstore_def split: option.splits)
  from wf obtain ix where ix: "ids self = Some ix" "length ix = nat (dstore_size self)"
    by (auto simp: wf_dstore_def split: option.splits)
  have room: "nat (cur_idx self) + n \<le> nat (dstore_size self)"
    using c0 fit by linarith
  have wk: "write_keys self (int n) k = (self\<lparr>dstore_keys := (dstore_keys self)\<lparr>body := put_rows (nat (cur_idx self)) n (body (dstore_keys self)) (body k)\<rparr>\<rparr>, None)"
    by (simp add: write_keys_def np_setitem3_exact [OF k(1) sk k(2) c0 room])
  have wv: "\<And>s. dstore_values s = dstore_values self \<Longrightarrow> cur_idx s = cur_idx self \<Longrightarrow>
     write_values s (int n) v = (s\<lparr>dstore_values := (dstore_values self)\<lparr>body := put_rows (nat (cur_idx self)) n (body (dstore_values self)) (body v)\<rparr>\<rparr>, None)"
    using np_setitem3_exact [OF v(1) sv _ c0 room] v(2) k(2)
    by (simp add: write_values_def)
  have wt: "\<And>s. tokens s = tokens self \<Longrightarrow> cur_idx s = cur_idx self \<Longrightarrow>
     write_tokens s (int n) t = (s\<lparr>tokens := Some (take (nat (cur_idx self)) ts @ map astype_int32 t
                       @ drop (nat (cur_idx self) + n) ts)\<rparr>, None)"
    using np_setitem1_exact [of "cur_idx self" "map astype_int32 t" ts] c0 room t ts
    by (simp add: write_tokens_def)
  have wi: "\<And>s. ids s = ids self \<Longrightarrow> cur_idx s = cur_idx self \<Longrightarrow>
     write_ids s (int n) i = (s\<lparr>ids := Some (take (nat (cur_idx self)) ix @ map astype_int32 i
                       @ drop (nat (cur_idx self) + n) ix)\<rparr>, None)"
    using np_setitem1_exact [of "cur_idx self" "map astype_int32 i" ix] c0 room i ix
    by (simp add: write_ids_def)
  show ?thesis
    by (simp add: save_to_memmap_def m wk and_then_simps wv wt wi ts ix)
qed

lemma save_asserts_fits:
  "fits_store self k v t i \<Longrightarrow> save_asserts self k v (Some t) (Some i) = None"
  by (auto simp: fits_store_def save_asserts_def wf_dstore_def)


lemma save_key_value_fits:
  assumes f: "fits_store self k v t i" and fit: "cur_idx self + int (length t) \<le> dstore_size self"
  shows "save_key_value self k v (Some t) (Some i) =
     (self\<lparr>dstore_keys := (dstore_keys self)\<lparr>body := put_rows (nat (cur_idx self)) (length t) (body (dstore_keys self)) (body k)\<rparr>,
           dstore_values := (dstore_values self)\<lparr>body := put_rows (nat (cur_idx self)) (length t) (body (dstore_values self)) (body v)\<rparr>,
           tokens := Some (take (nat (cur_idx self)) (the (tokens self)) @ map astype_int32 t
                       @ drop (nat (cur_idx self) + length t) (the (tokens self))),
           ids := Some (take (nat (cur_idx self)) (the (ids self)) @ map astype_int32 i
                       @ drop (nat (cur_idx self) + length t) (the (ids self))),
           cur_idx := cur_idx self + int (length t)\<rparr>, None)"
proof -
  from f have sh: "fst (snd (shape k)) = length t" by (simp add: fits_store_def)
  have m: "save_to_memmap self (int (length t)) k v t i = (self\<lparr>dstore_keys := (dstore_keys self)\<lparr>body := put_rows (nat (cur_idx self)) (length t) (body (dstore_keys self)) (body k)\<rparr>,
           dstore_values := (dstore_values self)\<lparr>body := put_rows (nat (cur_idx self)) (length t) (body (dstore_values self)) (body v)\<rparr>,
           tokens := Some (take (nat (cur_idx self)) (the (tokens self)) @ map astype_int32 t
                       @ drop (nat (cur_idx self) + length t) (the (tokens self))),
           ids := Some (take (nat (cur_idx self)) (the (ids self)) @ map astype_int32 i
                       @ drop (nat (cur_idx self) + length t) (the (ids self)))\<rparr>, None)"
    using f fit by (intro save_to_memmap_exact) (simp_all add: fits_store_def)
  show ?thesis
    using fit by (simp add: save_key_value_def save_asserts_fits [OF f] Let_def sh m and_then_simps)
qed

lemma wf3_rows:
  assumes "wf3 a" "shape a = (s0, s1, s2)"
  shows "length (body a) = s0" "\<forall>rows\<in>set (body a). length rows = s1"
  using assms by (auto simp: wf3_def list_all_iff)

lemma save_key_value_full:
  assumes f: "fits_store self k v t i" and c: "cur_idx self = dstore_size self"
  shows "save_key_value self k v (Some t) (Some i) = (self, None)"
proof -
  let ?k = "slice_axis1 0 k" and ?v = "slice_axis1 0 v"
  from f have wf: "wf_dstore self" and shk: "shape k = (nat (n_heads self), length t, nat (dimension self))"
    and shv: "shape v = shape k" and wk: "wf3 k" and wv: "wf3 v"
    by (simp_all add: fits_store_def)
  from wf obtain ts where ts: "tokens self = Some ts" "length ts = nat (dstore_size self)"
    by (auto simp: wf_dstore_def split: option.splits)
  from wf obtain ix where ix: "ids self = Some ix" "length ix = nat (dstore_size self)"
    by (auto simp: wf_dstore_def split: option.splits)
  from wf have sk: "shape (dstore_keys self) = (nat (n_heads self), nat (dstore_size self), nat (dimension self))"
    and sv: "shape (dstore_values self) = (nat (n_heads self), nat (dstore_size self), nat (dimension self))"
    and wdk: "wf3 (dstore_keys self)" and wdv: "wf3 (dstore_values self)"
    by (simp_all add: wf_dstore_def)
  have p0: "py_index 0 n = 0" for n by (simp add: py_index_def)
  have k0: "wf3 ?k" "shape ?k = (nat (n_heads self), 0, nat (dimension self))"
       "\<forall>new\<in>set (body ?k). new = []" "length (body ?k) = nat (n_heads self)"
    using wk shk by (auto simp: slice_axis1_def wf3_def p0 list_all_iff)
  have v0: "wf3 ?v" "shape ?v = shape ?k"
       "\<forall>new\<in>set (body ?v). new = []" "length (body ?v) = nat (n_heads self)"
    using wv shv shk by (auto simp: slice_axis1_def wf3_def p0 list_all_iff)
  have m: "save_to_memmap self (int 0) ?k ?v [] [] = (self, None)"
    using c ts ix
    by (subst save_to_memmap_exact [OF wf k0(1,2) v0(1,2)])
       (simp_all add: put_rows_nothing k0 v0 wf3_rows(1) [OF wdk sk] wf3_rows(1) [OF wdv sv])
  have asserts: "save_asserts self k v (Some t) (Some i) = None"
    by (rule save_asserts_fits [OF f])
  show ?thesis
  proof (cases "t = []")
    case True
    with f have "i = []" by (simp add: fits_store_def)
    have "save_key_value self k v (Some t) (Some i) =
       (self\<lparr>dstore_keys := (dstore_keys self)\<lparr>body := put_rows (nat (cur_idx self)) (length t) (body (dstore_keys self)) (body k)\<rparr>,
           dstore_values := (dstore_values self)\<lparr>body := put_rows (nat (cur_idx self)) (length t) (body (dstore_values self)) (body v)\<rparr>,
           tokens := Some (take (nat (cur_idx self)) (the (tokens self)) @ map astype_int32 t
                       @ drop (nat (cur_idx self) + length t) (the (tokens self))),
           ids := Some (take (nat (cur_idx self)) (the (ids self)) @ map astype_int32 i
                       @ drop (nat (cur_idx self) + length t) (the (ids self))),
           cur_idx := cur_idx self + int (length t)\<rparr>, None)"
      using c True by (intro save_key_value_fits [OF f]) simp
    moreover have "\<forall>new\<in>set (body k). new = []" "\<forall>new\<in>set (body v). new = []"
      using wf3_rows(2) [OF wk shk] wf3_rows(2) [OF wv shv [unfolded shk]] True by auto
    ultimately show ?thesis
      using True \<open>i = []\<close> ts ix
      by (simp add: put_rows_nothing wf3_rows(1) [OF wdk sk] wf3_rows(1) [OF wdv sv]
            wf3_rows(1) [OF wk shk] wf3_rows(1) [OF wv shv [unfolded shk]])
  next
    case False
    then have tr: "cur_idx self + int (fst (snd (shape k))) > dstore_size self"
      using c shk by simp
    show ?thesis
      using tr c m by (simp add: save_key_value_def asserts Let_def p0 and_then_simps)
  qed
qed


text \<open>A store of capacity 2 with one head of dimension 1, and a batch of two entries.\<close>

definition demo_store :: "int \<Rightarrow> int MemTransDatastore" where
  "demo_store c =
     \<lparr>dstore_size = 2, dimension = 1, n_heads = 1, cur_idx = c, mode = Mode_w_plus,
      dstore_keys = \<lparr>shape = (1, 2, 1), body = [[[0], [0]]]\<rparr>,
      dstore_values = \<lparr>shape = (1, 2, 1), body = [[[0], [0]]]\<rparr>,
      tokens = Some [0, 0], ids = Some [0, 0], labels = None, decoder_input_ids = None\<rparr>"

definition demo_batch :: "int tensor3" where
  "demo_batch = \<lparr>shape = (1, 2, 1), body = [[[7], [8]]]\<rparr>"

text \<open>
  C1. Over every sequence of \<^verbatim>\<open>save_key_value\<close> calls (whether they raise or not)
  \<open>cur_idx\<close> never decreases, and it never exceeds the capacity when it did not at the
  start. An append of \<open>n_new\<close> entries with \<open>cur_idx + n_new \<le> size\<close> returns without an
  exception, advances \<open>cur_idx\<close> by \<open>n_new\<close> and leaves all \<open>n_new\<close> keys, values, tokens
  and ids in the slots \<open>cur_idx, ..., cur_idx + n_new - 1\<close>. An append that starts at
  \<open>cur_idx = size\<close> returns without an exception and leaves the store as it was.
\<close>

theorem save_key_value_cur_idx:
  "sorted (map cur_idx (self # save_sequence self bs))
   \<and> (cur_idx self \<le> dstore_size self \<longrightarrow>
        (\<forall>s \<in> set (save_sequence self bs). cur_idx s \<le> dstore_size s \<and> dstore_size s = dstore_size self))
   \<and> (fits_store self k v t i \<and> cur_idx self + int (length t) \<le> dstore_size self \<longrightarrow>
        snd (save_key_value self k v (Some t) (Some i)) = None
        \<and> cur_idx (fst (save_key_value self k v (Some t) (Some i))) = cur_idx self + int (length t)
        \<and> stored_rows (dstore_keys (fst (save_key_value self k v (Some t) (Some i))))
              (nat (cur_idx self)) (length t) = body k
        \<and> stored_rows (dstore_values (fst (save_key_value self k v (Some t) (Some i))))
              (nat (cur_idx self)) (length t) = body v
        \<and> take (length t) (drop (nat (cur_idx self))
              (the (tokens (fst (save_key_value self k v (Some t) (Some i)))))) = map astype_int32 t
        \<and> take (length t) (drop (nat (cur_idx self))
              (the (ids (fst (save_key_value self k v (Some t) (Some i)))))) = map astype_int32 i)
   \<and> (fits_store self k v t i \<and> cur_idx self = dstore_size self \<longrightarrow>
        save_key_value self k v (Some t) (Some i) = (self, None))"
proof (intro conjI impI ballI)
  show "sorted (map cur_idx (self # save_sequence self bs))"
    by (rule save_sequence_sorted)
next
  fix s assume "cur_idx self \<le> dstore_size self" "s \<in> set (save_sequence self bs)"
  then show "cur_idx s \<le> dstore_size s" "dstore_size s = dstore_size self"
    using save_sequence_bound by blast+
next
  assume a: "fits_store self k v t i \<and> cur_idx self = dstore_size self"
  then show "save_key_value self k v (Some t) (Some i) = (self, None)"
    using save_key_value_full by blast
next
  assume a: "fits_store self k v t i \<and> cur_idx self + int (length t) \<le> dstore_size self"
  then have f: "fits_store self k v t i" and fit: "cur_idx self + int (length t) \<le> dstore_size self"
    by simp_all
  note eq = save_key_value_fits [OF f fit]
  from f have wf: "wf_dstore self" and shk: "shape k = (nat (n_heads self), length t, nat (dimension self))"
    and shv: "shape v = (nat (n_heads self), length t, nat (dimension self))" and wk: "wf3 k" and wv: "wf3 v"
    and li: "length i = length t"
    by (simp_all add: fits_store_def)
  from wf obtain ts where ts: "tokens self = Some ts" "length ts = nat (dstore_size self)"
    by (auto simp: wf_dstore_def split: option.splits)
  from wf obtain ix where ix: "ids self = Some ix" "length ix = nat (dstore_size self)"
    by (auto simp: wf_dstore_def split: option.splits)
  from wf have sk: "shape (dstore_keys self) = (nat (n_heads self), nat (dstore_size self), nat (dimension self))"
    and sv: "shape (dstore_values self) = (nat (n_heads self), nat (dstore_size self), nat (dimension self))"
    and wdk: "wf3 (dstore_keys self)" and wdv: "wf3 (dstore_values self)" and c0: "0 \<le> cur_idx self"
    by (simp_all add: wf_dstore_def)
  have room: "nat (cur_idx self) \<le> nat (dstore_size self)" using c0 fit by linarith
  show "snd (save_key_value self k v (Some t) (Some i)) = None"
    by (simp add: eq)
  show "cur_idx (fst (save_key_value self k v (Some t) (Some i))) = cur_idx self + int (length t)"
    by (simp add: eq)
  show "stored_rows (dstore_keys (fst (save_key_value self k v (Some t) (Some i))))
              (nat (cur_idx self)) (length t) = body k"
    unfolding eq stored_rows_def using wf3_rows [OF wdk sk] wf3_rows [OF wk shk] room
    by (simp add: stored_rows_put)
  show "stored_rows (dstore_values (fst (save_key_value self k v (Some t) (Some i))))
              (nat (cur_idx self)) (length t) = body v"
    unfolding eq stored_rows_def using wf3_rows [OF wdv sv] wf3_rows [OF wv shv] room
    by (simp add: stored_rows_put)
  show "take (length t) (drop (nat (cur_idx self))
              (the (tokens (fst (save_key_value self k v (Some t) (Some i)))))) = map astype_int32 t"
    unfolding eq using ts room by simp
  show "take (length t) (drop (nat (cur_idx self))
              (the (ids (fst (save_key_value self k v (Some t) (Some i)))))) = map astype_int32 i"
    unfolding eq using ix room li by simp
qed

theorem save_key_value_cur_idx_witness:
  "fits_store (demo_store 0) demo_batch demo_batch [5, 6] [0, 0]
   \<and> cur_idx (demo_store 0) + int (length [5, 6 :: int]) \<le> dstore_size (demo_store 0)
   \<and> snd (save_key_value (demo_store 0) demo_batch demo_batch (Some [5, 6]) (Some [0, 0])) = None
   \<and> cur_idx (fst (save_key_value (demo_store 0) demo_batch demo_batch (Some [5, 6]) (Some [0, 0]))) = 2
   \<and> stored_rows (dstore_keys (fst (save_key_value (demo_store 0) demo_batch demo_batch
         (Some [5, 6]) (Some [0, 0])))) 0 2 = [[[7], [8]]]
   \<and> take 2 (the (tokens (fst (save_key_value (demo_store 0) demo_batch demo_batch
         (Some [5, 6]) (Some [0, 0]))))) = [5, 6]
   \<and> fits_store (demo_store 2) demo_batch demo_batch [5, 6] [0, 0]
   \<and> cur_idx (demo_store 2) = dstore_size (demo_store 2)
   \<and> save_key_value (demo_store 2) demo_batch demo_batch (Some [5, 6]) (Some [0, 0]) = (demo_store 2, None)
   \<and> cur_idx (demo_store 1) \<le> dstore_size (demo_store 1)
   \<and> list_all (\<lambda>s. cur_idx s \<le> 2)
        (save_sequence (demo_store 1)
          [(demo_batch, demo_batch, Some [5, 6], Some [0, 0]),
           (demo_batch, demo_batch, Some [5, 6], Some [0, 0])])"
proof -
  have f0: "fits_store (demo_store 0) demo_batch demo_batch [5, 6] [0, 0]"
    by (simp add: fits_store_def wf_dstore_def wf3_def demo_store_def demo_batch_def)
  have f2: "fits_store (demo_store 2) demo_batch demo_batch [5, 6] [0, 0]"
    by (simp add: fits_store_def wf_dstore_def wf3_def demo_store_def demo_batch_def)
  have c0: "cur_idx (demo_store 0) + int (length [5, 6 :: int]) \<le> dstore_size (demo_store 0)"
    and z0: "cur_idx (demo_store 0) = 0"
    by (simp_all add: demo_store_def)
  have c2: "cur_idx (demo_store 2) = dstore_size (demo_store 2)"
    by (simp add: demo_store_def)
  have c1: "cur_idx (demo_store 1) \<le> dstore_size (demo_store 1)" and s1: "dstore_size (demo_store 1) = 2"
    by (simp_all add: demo_store_def)
  note t0 = save_key_value_cur_idx [of "demo_store 0" "[]" demo_batch demo_batch "[5, 6]" "[0, 0]"]
  note t2 = save_key_value_cur_idx [of "demo_store 2" "[]" demo_batch demo_batch "[5, 6]" "[0, 0]"]
  note t1 = save_key_value_cur_idx [of "demo_store 1"
          "[(demo_batch, demo_batch, Some [5, 6], Some [0, 0]),
           (demo_batch, demo_batch, Some [5, 6], Some [0, 0])]" demo_batch demo_batch "[5, 6]" "[0, 0]"]
  have full: "save_key_value (demo_store 2) demo_batch demo_batch (Some [5, 6]) (Some [0, 0]) = (demo_store 2, None)"
    using t2 f2 c2 by blast
  have r0: "snd (save_key_value (demo_store 0) demo_batch demo_batch (Some [5, 6]) (Some [0, 0])) = None"
    "cur_idx (fst (save_key_value (demo_store 0) demo_batch demo_batch (Some [5, 6]) (Some [0, 0])))
       = cur_idx (demo_store 0) + int (length [5, 6 :: int])"
    "stored_rows (dstore_keys (fst (save_key_value (demo_store 0) demo_batch demo_batch
         (Some [5, 6]) (Some [0, 0])))) (nat (cur_idx (demo_store 0))) (length [5, 6 :: int]) = body demo_batch"
    "take (length [5, 6 :: int]) (drop (nat (cur_idx (demo_store 0)))
        (the (tokens (fst (save_key_value (demo_store 0) demo_batch demo_batch
         (Some [5, 6]) (Some [0, 0])))))) = map astype_int32 [5, 6]"
    using t0 f0 c0 by blast+
  have seq: "list_all (\<lambda>s. cur_idx s \<le> 2)
        (save_sequence (demo_store 1)
          [(demo_batch, demo_batch, Some [5, 6], Some [0, 0]),
           (demo_batch, demo_batch, Some [5, 6], Some [0, 0])])"
    unfolding list_all_iff using t1 c1 s1 by auto
  from r0 have "take 2 (the (tokens (fst (save_key_value (demo_store 0) demo_batch demo_batch
         (Some [5, 6]) (Some [0, 0]))))) = [5, 6]"
    by (simp add: z0 astype_int32_def numeral_2_eq_2)
  with f0 c0 r0 f2 c2 full c1 seq show ?thesis
    by (simp add: z0 demo_batch_def numeral_2_eq_2)
qed

section \<open>MemTransDatastore.load_index: start and end offsets of each id\<close>

text \<open>
  Lines 165--182 of \<^verbatim>\<open>memtrans.py\<close>. The loop over \<^verbatim>\<open>enumerate(self.ids)\<close> carries the
  position \<open>i\<close>, \<open>prev_id\<close> and the two lists built so far.
  \<^verbatim>\<open>
    prev_id = -1
    for i, _id in enumerate(self.ids):
        if _id == prev_id + 1:  # new id
            if len(self.start_offsets):  # not the first
                self.end_offsets.append(i)
            self.start_offsets.append(i)
            prev_id = _id
        elif _id == prev_id:
            pass
        else:
            raise ValueError('ids are not consecutive')
  \<close>
\<close>

fun offsets_loop :: "int list \<Rightarrow> int \<Rightarrow> int \<Rightarrow> int list \<Rightarrow> int list \<Rightarrow> error + (int list \<times> int list)" where
  "offsets_loop [] i prev_id start_offsets end_offsets = Inr (start_offsets, end_offsets)"
| "offsets_loop (x # xs) i prev_id start_offsets end_offsets =
     (if x = prev_id + 1 then
        offsets_loop xs (i + 1) x (start_offsets @ [i])
          (if start_offsets \<noteq> [] then end_offsets @ [i] else end_offsets)
      else if x = prev_id then offsets_loop xs (i + 1) prev_id start_offsets end_offsets
      else Inl ValueError)"

text \<open>
  After the loop: \<^verbatim>\<open>self.end_offsets.append(len(self.ids))\<close>, the assertion that both
  lists have the same length, and \<^verbatim>\<open>self.lengths = self.end_offsets - self.start_offsets\<close>.
  The result is \<open>(start_offsets, end_offsets, lengths)\<close>.
\<close>

definition build_offsets :: "int list \<Rightarrow> error + (int list \<times> int list \<times> int list)" where
  "build_offsets id_list =
     (case offsets_loop id_list 0 (- 1) [] [] of
        Inl e \<Rightarrow> Inl e
      | Inr (start_offsets, end_offsets0) \<Rightarrow>
          (let end_offsets = end_offsets0 @ [int (length id_list)] in
           if length start_offsets \<noteq> length end_offsets then Inl AssertionError
           else Inr (start_offsets, end_offsets,
                     map (\<lambda>(e, s). e - s) (zip end_offsets start_offsets))))"

text \<open>The transitions the loop accepts: each id repeats its predecessor or is one more.\<close>

fun consecutive :: "int \<Rightarrow> int list \<Rightarrow> bool" where
  "consecutive p [] = True"
| "consecutive p (x # xs) = ((x = p + 1 \<or> x = p) \<and> consecutive x xs)"

lemma offsets_loop_rejects:
  "\<not> consecutive p xs \<Longrightarrow> offsets_loop xs i p ss es = Inl ValueError"
  by (induction xs arbitrary: i p ss es) auto

lemma offsets_loop_accepts:
  "consecutive p xs \<Longrightarrow> \<exists>r. offsets_loop xs i p ss es = Inr r"
  by (induction xs arbitrary: i p ss es) auto

lemma consecutive_nth:
  "consecutive p xs \<Longrightarrow> Suc k < length xs \<Longrightarrow> xs ! Suc k = xs ! k + 1 \<or> xs ! Suc k = xs ! k"
proof (induction xs arbitrary: k p)
  case Nil
  then show ?case by simp
next
  case (Cons x xs)
  show ?case
  proof (cases k)
    case 0
    with Cons.prems show ?thesis by (cases xs) auto
  next
    case (Suc j)
    with Cons.prems Cons.IH [of x j] show ?thesis by simp
  qed
qed

lemma consecutive_hd:
  "consecutive p xs \<Longrightarrow> xs \<noteq> [] \<Longrightarrow> hd xs = p + 1 \<or> hd xs = p"
  by (cases xs) auto

lemma build_offsets_rejects:
  "\<not> consecutive (- 1) xs \<Longrightarrow> build_offsets xs = Inl ValueError"
  by (simp add: build_offsets_def offsets_loop_rejects)

text \<open>
  C3. Building the offsets over the ids \<open>[0,0,1,1,1,2]\<close> gives the spans
  \<open>0: [0,2)\<close>, \<open>1: [2,5)\<close>, \<open>2: [5,6)\<close> with lengths 2, 3, 1; over \<open>[0,2,1]\<close> it raises
  the error for ids that are not consecutive; and so does every id sequence with a
  transition to a smaller id or to an id that skips a value (also at the first
  position, where only the ids 0 and \<open>-1\<close> pass).
\<close>

theorem build_offsets_spans:
  "build_offsets [0, 0, 1, 1, 1, 2] = Inr ([0, 2, 5], [2, 5, 6], [2, 3, 1])
   \<and> build_offsets [0, 2, 1] = Inl ValueError
   \<and> (\<forall>xs k. Suc k < length xs \<and> (xs ! Suc k < xs ! k \<or> xs ! k + 1 < xs ! Suc k)
        \<longrightarrow> build_offsets xs = Inl ValueError)
   \<and> (\<forall>xs. xs \<noteq> [] \<and> (hd xs < - 1 \<or> 0 < hd xs) \<longrightarrow> build_offsets xs = Inl ValueError)"
proof (intro conjI allI impI)
  show "build_offsets [0, 0, 1, 1, 1, 2] = Inr ([0, 2, 5], [2, 5, 6], [2, 3, 1])"
    by (simp add: build_offsets_def)
  show "build_offsets [0, 2, 1] = Inl ValueError"
    by (simp add: build_offsets_def)
next
  fix xs :: "int list" and k
  assume a: "Suc k < length xs \<and> (xs ! Suc k < xs ! k \<or> xs ! k + 1 < xs ! Suc k)"
  have "\<not> consecutive (- 1) xs"
  proof
    assume "consecutive (- 1) xs"
    with a have "xs ! Suc k = xs ! k + 1 \<or> xs ! Suc k = xs ! k"
      using consecutive_nth by blast
    with a show False by auto
  qed
  then show "build_offsets xs = Inl ValueError" by (rule build_offsets_rejects)
next
  fix xs :: "int list"
  assume a: "xs \<noteq> [] \<and> (hd xs < - 1 \<or> 0 < hd xs)"
  have "\<not> consecutive (- 1) xs"
  proof
    assume "consecutive (- 1) xs"
    with a have "hd xs = - 1 + 1 \<or> hd xs = - 1" using consecutive_hd by blast
    with a show False by auto
  qed
  then show "build_offsets xs = Inl ValueError" by (rule build_offsets_rejects)
qed

theorem build_offsets_spans_witness:
  "build_offsets [0, 1, 0] = Inl ValueError \<and> build_offsets [0, 0, 3] = Inl ValueError
   \<and> build_offsets [1, 2] = Inl ValueError"
proof -
  have t: "\<And>xs k. Suc k < length xs \<and> (xs ! Suc k < xs ! k \<or> xs ! k + 1 < xs ! Suc k)
        \<Longrightarrow> build_offsets xs = Inl ValueError"
    using build_offsets_spans by blast
  have h: "\<And>xs. xs \<noteq> [] \<and> (hd xs < - 1 \<or> 0 < hd xs) \<Longrightarrow> build_offsets xs = Inl ValueError"
    using build_offsets_spans by blast
  have "build_offsets [0, 1, 0] = Inl ValueError" by (rule t [of 1]) simp
  moreover have "build_offsets [0, 0, 3] = Inl ValueError" by (rule t [of 1]) simp
  moreover have "build_offsets [1, 2] = Inl ValueError" by (rule h) simp
  ultimately show ?thesis by simp
qed


section \<open>MemTransDatastore.get_knns\<close>

text \<open>
  The result of a retrieval: \<^verbatim>\<open>(ret_ks, ret_vs, ret_ts, ret_ids)\<close>, keys and values of shape
  \<open>(n_heads, batch, topk, dim)\<close>, tokens and ids of shape \<open>(n_heads, batch, topk)\<close> or
  \<^verbatim>\<open>None\<close>.
\<close>

type_synonym 'f knns = "'f tensor4 \<times> 'f tensor4 \<times> int tensor3 option \<times> int tensor3 option"

text \<open>
  The faiss index of one head is a parameter: its \<^verbatim>\<open>search\<close> takes the queries of the head
  \<open>(batch, dim)\<close> and \<open>topk\<close> and returns the indices \<open>(batch, topk)\<close> of the neighbours.
  \<^verbatim>\<open>self.indices\<close> is the list of these, or \<open>None\<close> before \<^verbatim>\<open>load_index\<close> or
  \<^verbatim>\<open>build_index\<close> has set it.
\<close>

type_synonym 'f ann_index = "'f list list \<Rightarrow> int \<Rightarrow> int list list"

text \<open>\<^verbatim>\<open>torch.zeros(nh, bs, 0, dim)\<close> and \<^verbatim>\<open>torch.zeros(nh, bs, 0)\<close>.\<close>

definition zeros_topk0 :: "nat \<Rightarrow> nat \<Rightarrow> nat \<Rightarrow> 'f tensor4" where
  "zeros_topk0 nh bs dim = \<lparr>shape = (nh, bs, 0, dim), body = replicate nh (replicate bs [])\<rparr>"

definition zeros_topk0_int :: "nat \<Rightarrow> nat \<Rightarrow> int tensor3" where
  "zeros_topk0_int nh bs = \<lparr>shape = (nh, bs, 0), body = replicate nh (replicate bs [])\<rparr>"

text \<open>
  \<^verbatim>\<open>a[indices]\<close> for an index array of shape \<open>(batch, topk)\<close>: a negative index counts
  from the end, an index out of range raises IndexError.
\<close>

definition take_at :: "'a list \<Rightarrow> int \<Rightarrow> error + 'a" where
  "take_at a j =
     (if 0 \<le> j \<and> j < int (length a) then Inr (a ! nat j)
      else if - int (length a) \<le> j \<and> j < 0 then Inr (a ! nat (j + int (length a)))
      else Inl IndexError)"

fun collect :: "(error + 'a) list \<Rightarrow> error + 'a list" where
  "collect [] = Inr []"
| "collect (Inl e # rs) = Inl e"
| "collect (Inr x # rs) = (case collect rs of Inl e \<Rightarrow> Inl e | Inr xs \<Rightarrow> Inr (x # xs))"

definition gather :: "'a list \<Rightarrow> int list list \<Rightarrow> error + 'a list list" where
  "gather a indices = collect (map (\<lambda>row. collect (map (take_at a) row)) indices)"

text \<open>
  One pass of the loop over the heads (lines 228--237); the result of a head is its
  gathered keys, values, tokens and ids (the last two empty when \<^verbatim>\<open>return_all\<close> is
  false).
\<close>

type_synonym 'f head_knns = "'f list list list \<times> 'f list list list \<times> int list list \<times> int list list"

definition search_head ::
  "'f MemTransDatastore \<Rightarrow> 'f ann_index list option \<Rightarrow> 'f tensor3 \<Rightarrow> int \<Rightarrow> bool \<Rightarrow> nat
     \<Rightarrow> error + 'f head_knns" where
  "search_head self indices queries topk return_all h =
     (case indices of
        None \<Rightarrow> Inl AttributeError
      | Some idx \<Rightarrow>
         (if length idx \<le> h \<or> length (body queries) \<le> h
             \<or> length (body (dstore_keys self)) \<le> h \<or> length (body (dstore_values self)) \<le> h
          then Inl IndexError
          else
           (let found = (idx ! h) (body queries ! h) topk in
            case gather (body (dstore_keys self) ! h) found of
              Inl e \<Rightarrow> Inl e
            | Inr ks \<Rightarrow>
               (case gather (body (dstore_values self) ! h) found of
                  Inl e \<Rightarrow> Inl e
                | Inr vs \<Rightarrow>
                   (if \<not> return_all then Inr (ks, vs, [], [])
                    else if tokens self = None then Inl AssertionError
                    else (case gather (the (tokens self)) found of
                            Inl e \<Rightarrow> Inl e
                          | Inr ts \<Rightarrow>
                             (if ids self = None then Inl AssertionError
                              else (case gather (the (ids self)) found of
                                      Inl e \<Rightarrow> Inl e
                                    | Inr is \<Rightarrow> Inr (ks, vs, ts, is)))))))))"

text \<open>
  \<^verbatim>\<open>get_knns\<close> (lines 208--245). Besides its result the model returns the log of the
  \<^verbatim>\<open>index.search\<close> calls made, as pairs of the head and \<open>topk\<close>. The stores are taken to
  be torch tensors (\<^verbatim>\<open>move_dstore_to_mem\<close>), and faiss to return \<open>topk\<close> indices for
  each query.
\<close>

fun search_heads ::
  "'f MemTransDatastore \<Rightarrow> 'f ann_index list option \<Rightarrow> 'f tensor3 \<Rightarrow> int \<Rightarrow> bool \<Rightarrow> nat list
     \<Rightarrow> (error + 'f head_knns list) \<times> (nat \<times> int) list" where
  "search_heads self indices queries topk return_all [] = (Inr [], [])"
| "search_heads self indices queries topk return_all (h # hs) =
     (case search_head self indices queries topk return_all h of
        Inl e \<Rightarrow> (Inl e, if indices = None \<or> length (the indices) \<le> h \<or> length (body queries) \<le> h
                         then [] else [(h, topk)])
      | Inr r \<Rightarrow>
         (case search_heads self indices queries topk return_all hs of
            (Inl e, log) \<Rightarrow> (Inl e, (h, topk) # log)
          | (Inr rs, log) \<Rightarrow> (Inr (r # rs), (h, topk) # log)))"

definition get_knns ::
  "'f::zero MemTransDatastore \<Rightarrow> 'f ann_index list option \<Rightarrow> 'f tensor3 \<Rightarrow> int \<Rightarrow> bool
     \<Rightarrow> (error + 'f knns) \<times> (nat \<times> int) list" where
  "get_knns self indices queries topk return_all =
     (case shape queries of (nh, bs, dim) \<Rightarrow>
        if topk \<le> 0 then
          (Inr (zeros_topk0 nh bs dim, zeros_topk0 nh bs dim,
                if return_all then Some (zeros_topk0_int nh bs) else None,
                if return_all then Some (zeros_topk0_int nh bs) else None), [])
        else
          (case search_heads self indices queries topk return_all [0 ..< nat (n_heads self)] of
             (Inl e, log) \<Rightarrow> (Inl e, log)
           | (Inr rs, log) \<Rightarrow>
               (if rs = [] then (Inl RuntimeError, log)
                else
                  (Inr (\<lparr>shape = (length rs, bs, nat topk, snd (snd (shape (dstore_keys self)))),
                         body = map fst rs\<rparr>,
                        \<lparr>shape = (length rs, bs, nat topk, snd (snd (shape (dstore_values self)))),
                         body = map (fst \<circ> snd) rs\<rparr>,
                        if return_all
                        then Some \<lparr>shape = (length rs, bs, nat topk), body = map (fst \<circ> snd \<circ> snd) rs\<rparr>
                        else None,
                        if return_all
                        then Some \<lparr>shape = (length rs, bs, nat topk), body = map (snd \<circ> snd \<circ> snd) rs\<rparr>
                        else None), log))))"

lemma zeros_topk0_wf: "wf4 (zeros_topk0 nh bs dim :: 'f tensor4)"
  by (simp add: wf4_def zeros_topk0_def list_all_iff)

lemma zeros_topk0_int_wf: "wf3 (zeros_topk0_int nh bs)"
  by (simp add: wf3_def zeros_topk0_int_def list_all_iff)

text \<open>
  C4. For a query batch of shape \<open>(n_heads, batch, dim)\<close> and \<open>topk \<le> 0\<close>, \<^verbatim>\<open>get_knns\<close>
  returns (it raises nothing) keys and values of shape \<open>(n_heads, batch, 0, dim)\<close> and,
  when \<^verbatim>\<open>return_all\<close> is set, tokens and ids of shape \<open>(n_heads, batch, 0)\<close>, all with
  entries that fit the shape; no \<^verbatim>\<open>index.search\<close> call is made, and the result is the
  same whatever the indices are, also when none is loaded.
\<close>

theorem get_knns_topk0:
  assumes "topk \<le> 0" and "shape queries = (nh, bs, dim)"
  shows "\<exists>ks vs ts is.
           get_knns self indices queries topk return_all = (Inr (ks, vs, ts, is), [])
           \<and> shape ks = (nh, bs, 0, dim) \<and> wf4 ks
           \<and> shape vs = (nh, bs, 0, dim) \<and> wf4 vs
           \<and> (if return_all
               then ts \<noteq> None \<and> shape (the ts) = (nh, bs, 0) \<and> wf3 (the ts)
                  \<and> is \<noteq> None \<and> shape (the is) = (nh, bs, 0) \<and> wf3 (the is)
               else ts = None \<and> is = None)
           \<and> get_knns self None queries topk return_all = (Inr (ks, vs, ts, is), [])"
  using assms
  by (simp add: get_knns_def zeros_topk0_wf zeros_topk0_int_wf)
    (simp add: zeros_topk0_def zeros_topk0_int_def)

theorem get_knns_topk0_witness:
  "(0::int) \<le> 0 \<and> shape \<lparr>shape = (2, 3, 4), body = replicate 2 (replicate 3 (replicate 4 (1::int)))\<rparr>
      = (2, 3, 4)
   \<and> get_knns (demo_store 0) None
        \<lparr>shape = (2, 3, 4), body = replicate 2 (replicate 3 (replicate 4 (1::int)))\<rparr> 0 True
      = (Inr (\<lparr>shape = (2, 3, 0, 4), body = [[[], [], []], [[], [], []]]\<rparr>,
              \<lparr>shape = (2, 3, 0, 4), body = [[[], [], []], [[], [], []]]\<rparr>,
              Some \<lparr>shape = (2, 3, 0), body = [[[], [], []], [[], [], []]]\<rparr>,
              Some \<lparr>shape = (2, 3, 0), body = [[[], [], []], [[], [], []]]\<rparr>), [])"
proof -
  have h: "(0::int) \<le> 0" by simp
  have s: "shape \<lparr>shape = (2, 3, 4), body = replicate 2 (replicate 3 (replicate 4 (1::int)))\<rparr>
      = (2::nat, 3::nat, 4::nat)" by simp
  from get_knns_topk0 [OF h s, of "demo_store 0" None True]
  obtain ks vs ts "is" where
    r: "get_knns (demo_store 0) None
        \<lparr>shape = (2, 3, 4), body = replicate 2 (replicate 3 (replicate 4 (1::int)))\<rparr> 0 True
        = (Inr (ks, vs, ts, is), [])"
    by blast
  have "get_knns (demo_store 0) None
        \<lparr>shape = (2, 3, 4), body = replicate 2 (replicate 3 (replicate 4 (1::int)))\<rparr> 0 True
      = (Inr (\<lparr>shape = (2, 3, 0, 4), body = [[[], [], []], [[], [], []]]\<rparr>,
              \<lparr>shape = (2, 3, 0, 4), body = [[[], [], []], [[], [], []]]\<rparr>,
              Some \<lparr>shape = (2, 3, 0), body = [[[], [], []], [[], [], []]]\<rparr>,
              Some \<lparr>shape = (2, 3, 0), body = [[[], [], []], [[], [], []]]\<rparr>), [])"
    using r by (simp add: get_knns_def zeros_topk0_def zeros_topk0_int_def numeral_2_eq_2 numeral_3_eq_3)
  with h s show ?thesis by simp
qed


section \<open>RetrievalTracker\<close>

text \<open>
  \<^verbatim>\<open>str\<close> of a Python integer and \<^verbatim>\<open>sep.join\<close>, for the lines that \<^verbatim>\<open>write\<close> formats.
\<close>

fun digits :: "nat \<Rightarrow> string" where
  "digits n =
     (if n < 10 then [''0123456789'' ! n]
      else digits (n div 10) @ [''0123456789'' ! (n mod 10)])"

declare digits.simps [simp del]

definition py_str :: "int \<Rightarrow> string" where
  "py_str i = (if i < 0 then CHR ''-'' # digits (nat (- i)) else digits (nat i))"

fun join :: "string \<Rightarrow> string list \<Rightarrow> string" where
  "join sep [] = []"
| "join sep [x] = x"
| "join sep (x # y # ys) = x @ sep @ join sep (y # ys)"

text \<open>
  The buffers of the tracker: one entry per recorded step, a prediction of shape
  \<open>(batch_size)\<close> and retrieved tokens and ids of shape \<open>(batch_size, n_heads, topk)\<close>.
  \<open>written\<close> is the text passed to \<^verbatim>\<open>_write\<close>, one entry per call, in order.
\<close>

record RetrievalTracker =
  tracker_n_heads :: int
  tracker_topk :: int
  eos_token_id :: int
  predictions :: "int list list"
  retrieved_tokens :: "int tensor3 list"
  retrieved_ids :: "int tensor3 list"
  written :: "string list"

definition add_single_step_batched ::
  "RetrievalTracker \<Rightarrow> int list \<Rightarrow> int tensor3 \<Rightarrow> int tensor3 \<Rightarrow> RetrievalTracker \<times> error option" where
  "add_single_step_batched self prediction retrieved_token retrieved_id =
     (if \<not> (length prediction = fst (shape retrieved_token)
             \<and> fst (shape retrieved_token) = fst (shape retrieved_id))
      then (self, Some AssertionError)
      else (self\<lparr>predictions := predictions self @ [prediction],
                 retrieved_tokens := retrieved_tokens self @ [retrieved_token],
                 retrieved_ids := retrieved_ids self @ [retrieved_id]\<rparr>, None))"

text \<open>
  \<^verbatim>\<open>torch.stack(xs, dim=1)\<close>: RuntimeError on an empty list and on tensors of different
  shapes; entry \<open>i\<close> of the result lists entry \<open>i\<close> of every tensor.
\<close>

definition stack_dim1 :: "'a list list \<Rightarrow> error + 'a list list" where
  "stack_dim1 xs =
     (if xs = [] then Inl RuntimeError
      else if \<not> list_all (\<lambda>x. length x = length (hd xs)) xs then Inl RuntimeError
      else Inr (map (\<lambda>i. map (\<lambda>x. x ! i) xs) [0 ..< length (hd xs)]))"

definition stack_dim1_tensors :: "'a tensor3 list \<Rightarrow> error + 'a list list list list" where
  "stack_dim1_tensors ts =
     (if ts = [] then Inl RuntimeError
      else if \<not> list_all (\<lambda>t. shape t = shape (hd ts)) ts then Inl RuntimeError
      else Inr (map (\<lambda>i. map (\<lambda>t. body t ! i) ts) [0 ..< fst (shape (hd ts))]))"

text \<open>\<^verbatim>\<open>np.argmax\<close>: the first position of the largest entry.\<close>

definition argmax :: "nat list \<Rightarrow> nat" where
  "argmax ws = length (takeWhile (\<lambda>w. w \<noteq> foldr max ws 0) ws)"

definition last_size :: "'a tensor3 \<Rightarrow> nat" where
  "last_size t = snd (snd (shape t))"

definition zeros_like :: "int tensor3 \<Rightarrow> int tensor3" where
  "zeros_like t = t\<lparr>body := map (map (map (\<lambda>_. 0))) (body t)\<rparr>"

text \<open>
  Lines 326--329, commented \<^verbatim>\<open># pad with 0\<close> in the source: every step whose last
  dimension differs from the largest one is replaced by \<^verbatim>\<open>torch.zeros_like\<close> of the step
  at \<^verbatim>\<open>max_topk_idx\<close>.
\<close>

definition pad_steps :: "nat \<Rightarrow> nat \<Rightarrow> int tensor3 list \<Rightarrow> int tensor3 list" where
  "pad_steps max_topk_idx max_topk steps =
     map (\<lambda>rt. if last_size rt \<noteq> max_topk then zeros_like (steps ! max_topk_idx) else rt) steps"

text \<open>
  \<^verbatim>\<open>agg[i, j]\<close>: the prediction of batch row \<open>i\<close> at step \<open>j\<close>, then for every head and
  every retrieved position the token and the id (the stack on the last dimension and
  \<^verbatim>\<open>flatten(2, 4)\<close>).
\<close>

definition agg_row :: "int \<Rightarrow> int list list \<Rightarrow> int list list \<Rightarrow> int list" where
  "agg_row p toks idl =
     p # concat (map (\<lambda>(trow, irow). concat (map (\<lambda>(t, d). [t, d]) (zip trow irow))) (zip toks idl))"

text \<open>
  The inner loop of lines 338--342 over the steps of one batch row, with its
  \<^verbatim>\<open>break\<close> at the first step whose prediction is the end-of-sequence token.
\<close>

fun write_steps :: "int \<Rightarrow> int list list \<Rightarrow> string list" where
  "write_steps eos [] = []"
| "write_steps eos (s # ss) =
     (if hd s = eos then []
      else (join '' '' (map py_str s) @ [CHR 0x0A]) # write_steps eos ss)"

definition write_rows :: "int \<Rightarrow> int list list list \<Rightarrow> string list" where
  "write_rows eos agg = concat (map (\<lambda>row. write_steps eos row @ [[CHR 0x0A]]) agg)"

text \<open>
  \<^verbatim>\<open>write\<close> (lines 322--348). The two buffers are reassigned by the padding before the
  stacks can raise, so an exception after that point leaves them padded.
\<close>

definition write_packed ::
  "RetrievalTracker \<Rightarrow> int list list \<Rightarrow> RetrievalTracker \<times> error option" where
  "write_packed self preds =
     (case stack_dim1_tensors (retrieved_tokens self) of
        Inl e \<Rightarrow> (self, Some e)
      | Inr toks \<Rightarrow>
         (case stack_dim1_tensors (retrieved_ids self) of
            Inl e \<Rightarrow> (self, Some e)
          | Inr idl \<Rightarrow>
             (if shape (hd (retrieved_tokens self)) \<noteq> shape (hd (retrieved_ids self))
                 \<or> length (retrieved_tokens self) \<noteq> length (retrieved_ids self)
                 \<or> length preds \<noteq> fst (shape (hd (retrieved_tokens self)))
                 \<or> length (predictions self) \<noteq> length (retrieved_tokens self)
              then (self, Some RuntimeError)
              else
                (self\<lparr>written := written self @
                         write_rows (eos_token_id self)
                           (map (\<lambda>(prow, trow, irow).
                                   map (\<lambda>(p, t, d). agg_row p t d) (zip prow (zip trow irow)))
                              (zip preds (zip toks idl))),
                       predictions := [], retrieved_tokens := [], retrieved_ids := []\<rparr>, None))))"

definition tracker_write :: "RetrievalTracker \<Rightarrow> RetrievalTracker \<times> error option" where
  "tracker_write self =
     (case stack_dim1 (predictions self) of
        Inl e \<Rightarrow> (self, Some e)
      | Inr preds \<Rightarrow>
         (if retrieved_tokens self = [] then (self, Some ValueError)
          else
            (let max_topk_idx = argmax (map last_size (retrieved_tokens self));
                 max_topk = last_size (retrieved_tokens self ! max_topk_idx)
             in if length (retrieved_ids self) \<le> max_topk_idx
                   \<and> \<not> list_all (\<lambda>ri. last_size ri = max_topk) (retrieved_ids self)
                then (self\<lparr>retrieved_tokens :=
                         pad_steps max_topk_idx max_topk (retrieved_tokens self)\<rparr>, Some IndexError)
                else write_packed
                       (self\<lparr>retrieved_tokens := pad_steps max_topk_idx max_topk (retrieved_tokens self),
                              retrieved_ids := pad_steps max_topk_idx max_topk (retrieved_ids self)\<rparr>)
                       preds)))"


text \<open>
  The inner loop writes the steps before the first end-of-sequence prediction, and
  \<^verbatim>\<open>write\<close> on an empty buffer raises: \<^verbatim>\<open>torch.stack\<close> refuses an empty list.
\<close>

lemma write_steps_takeWhile:
  "write_steps eos rows =
     map (\<lambda>s. join '' '' (map py_str s) @ [CHR 0x0A]) (takeWhile (\<lambda>s. hd s \<noteq> eos) rows)"
  by (induction rows) auto

lemma tracker_write_empty:
  "predictions self = [] \<Longrightarrow> tracker_write self = (self, Some RuntimeError)"
  by (simp add: tracker_write_def stack_dim1_def)

text \<open>
  A buffer of three steps for one batch row, one head and one retrieved entry per
  step, with predictions 5, 7 and the end-of-sequence token 1.
\<close>

definition eos_tracker :: RetrievalTracker where
  "eos_tracker =
     \<lparr>tracker_n_heads = 1, tracker_topk = 1, eos_token_id = 1,
      predictions = [[5], [7], [1]],
      retrieved_tokens =
        [\<lparr>shape = (1, 1, 1), body = [[[11]]]\<rparr>, \<lparr>shape = (1, 1, 1), body = [[[12]]]\<rparr>,
         \<lparr>shape = (1, 1, 1), body = [[[13]]]\<rparr>],
      retrieved_ids =
        [\<lparr>shape = (1, 1, 1), body = [[[21]]]\<rparr>, \<lparr>shape = (1, 1, 1), body = [[[22]]]\<rparr>,
         \<lparr>shape = (1, 1, 1), body = [[[23]]]\<rparr>],
      written = []\<rparr>"

text \<open>
  C5. On the buffer with predictions 5, 7, eos the first \<^verbatim>\<open>write\<close> emits the lines of the
  steps 5 and 7, not the line of the eos step, then the blank line, and clears the
  buffer. The second \<^verbatim>\<open>write\<close>, on the buffer now empty, emits nothing but raises
  RuntimeError, where the claim says it does not error.
\<close>

theorem tracker_write_eos_then_empty:
  "tracker_write eos_tracker =
     (eos_tracker\<lparr>written := [''5 11 21'' @ [CHR 0x0A], ''7 12 22'' @ [CHR 0x0A], [CHR 0x0A]],
        predictions := [], retrieved_tokens := [], retrieved_ids := []\<rparr>, None)
   \<and> tracker_write (fst (tracker_write eos_tracker)) =
     (fst (tracker_write eos_tracker), Some RuntimeError)"
proof -
  have 1: "tracker_write eos_tracker =
     (eos_tracker\<lparr>written := [''5 11 21'' @ [CHR 0x0A], ''7 12 22'' @ [CHR 0x0A], [CHR 0x0A]],
        predictions := [], retrieved_tokens := [], retrieved_ids := []\<rparr>, None)"
    by (simp add: tracker_write_def eos_tracker_def stack_dim1_def argmax_def last_size_def
          pad_steps_def write_packed_def stack_dim1_tensors_def write_rows_def agg_row_def
          py_str_def digits.simps Let_def upt_rec)
  have 2: "tracker_write (fst (tracker_write eos_tracker)) =
     (fst (tracker_write eos_tracker), Some RuntimeError)"
    by (rule tracker_write_empty) (simp add: 1)
  from 1 2 show ?thesis by simp
qed




section \<open>MemTransAttn\<close>

text \<open>
  \<^verbatim>\<open>track\<close> is a bool or the name of a file; \<^verbatim>\<open>is_track\<close> is its truth value.
  \<open>tracker\<close> exists only when \<^verbatim>\<open>is_track\<close> holds. \<open>by_ids_cache\<close> is \<^verbatim>\<open>None\<close> or the
  tuple of the last retrieval by ids.
\<close>

datatype track_arg = Track_bool bool | Track_file string

type_synonym 'a tensor5 =
  "(nat \<times> nat \<times> nat \<times> nat \<times> nat, 'a list list list list list) tensor"

record 'f MemTransAttn =
  dstore :: "'f MemTransDatastore"
  topk :: int
  stage :: string
  track :: track_arg
  tracker :: "RetrievalTracker option"
  by_ids :: bool
  by_ids_cache :: "'f knns option"
  id_offset :: int
  skip_retrieval_steps :: int
  skip_first_token :: bool
  add_after_first :: bool

definition is_track :: "'f MemTransAttn \<Rightarrow> bool" where
  "is_track self = (case track self of Track_bool b \<Rightarrow> b | Track_file f \<Rightarrow> f \<noteq> [])"

subsection \<open>save\<close>

text \<open>
  Line 398: \<^verbatim>\<open>self.id_offset + torch.arange(bs).unsqueeze(-1).repeat(1, sl).flatten(0, 1)\<close>,
  the example id of every position of the flattened batch.
\<close>

definition save_ids :: "int \<Rightarrow> nat \<Rightarrow> nat \<Rightarrow> int list" where
  "save_ids offset bs sl = concat (map (\<lambda>j. replicate sl (offset + int j)) [0 ..< bs])"

text \<open>
  \<^verbatim>\<open>t.permute(1, 0, 2, 3).flatten(1, 2)\<close> on a tensor of shape
  \<open>(batch_size, n_heads, seq_length, dim)\<close>.
\<close>

definition heads_first :: "'a tensor4 \<Rightarrow> 'a tensor3" where
  "heads_first t =
     (case shape t of (bs, nh, sl, d) \<Rightarrow>
        \<lparr>shape = (nh, bs * sl, d),
         body = map (\<lambda>h. concat (map (\<lambda>b. b ! h) (body t))) [0 ..< nh]\<rparr>)"

text \<open>
  Indexing with a boolean mask: \<^verbatim>\<open>xs[mask]\<close> and \<^verbatim>\<open>t[:, mask, :]\<close>. The mask must be as
  long as the axis it selects from, else torch raises IndexError.
\<close>

definition select :: "bool list \<Rightarrow> 'a list \<Rightarrow> 'a list" where
  "select msk xs = map fst (filter snd (zip xs msk))"

definition mask_select1 :: "bool list \<Rightarrow> 'a list \<Rightarrow> error + 'a list" where
  "mask_select1 msk xs = (if length msk \<noteq> length xs then Inl IndexError else Inr (select msk xs))"

definition mask_select3 :: "bool list \<Rightarrow> 'a tensor3 \<Rightarrow> error + 'a tensor3" where
  "mask_select3 msk t =
     (case shape t of (a, b, c) \<Rightarrow>
        if length msk \<noteq> b then Inl IndexError
        else Inr \<lparr>shape = (a, length (filter id msk), c), body = map (select msk) (body t)\<rparr>)"

text \<open>
  Lines 401--407 after the offset has been advanced: the four selections by the mask,
  in the order of the source. The result is the arguments of \<^verbatim>\<open>save_key_value\<close>.
\<close>

definition save_select ::
  "bool list \<Rightarrow> 'f tensor4 \<Rightarrow> 'f tensor4 \<Rightarrow> int list \<Rightarrow> int list
     \<Rightarrow> error + ('f tensor3 \<times> 'f tensor3 \<times> int list \<times> int list)" where
  "save_select msk key_states value_states dec idl =
     (case mask_select3 msk (heads_first key_states) of
        Inl e \<Rightarrow> Inl e
      | Inr ks \<Rightarrow>
         (case mask_select3 msk (heads_first value_states) of
            Inl e \<Rightarrow> Inl e
          | Inr vs \<Rightarrow>
             (case mask_select1 msk dec of
                Inl e \<Rightarrow> Inl e
              | Inr toks \<Rightarrow>
                 (case mask_select1 msk idl of
                    Inl e \<Rightarrow> Inl e
                  | Inr sel \<Rightarrow> Inr (ks, vs, toks, sel)))))"

text \<open>
  \<^verbatim>\<open>save\<close> (lines 385--410). \<^verbatim>\<open>labels.flatten(0, 1)\<close> raises AttributeError when no
  labels were saved in the store; that is before \<open>id_offset\<close> is touched. Every later
  exception leaves \<open>id_offset\<close> advanced.
\<close>

definition save ::
  "'f MemTransAttn \<Rightarrow> 'f tensor4 \<Rightarrow> 'f tensor4 \<Rightarrow> 'f MemTransAttn \<times> error option" where
  "save self key_states value_states =
     (case shape key_states of (bs, nh, sl, d) \<Rightarrow>
        if labels (dstore self) = None \<or> decoder_input_ids (dstore self) = None
        then (self, Some AttributeError)
        else
          (let lab = concat (the (labels (dstore self)));
               dec = concat (the (decoder_input_ids (dstore self)));
               msk = map (\<lambda>l. l \<noteq> - 100) lab;
               idl = save_ids (id_offset self) bs sl;
               self1 = self\<lparr>id_offset := id_offset self + int bs\<rparr>
           in case save_select msk key_states value_states dec idl of
                Inl e \<Rightarrow> (self1, Some e)
              | Inr (ks, vs, toks, sel) \<Rightarrow>
                 (case save_key_value (dstore self1) ks vs (Some toks) (Some sel) of
                    (d', r) \<Rightarrow> (self1\<lparr>dstore := d'\<rparr>, r))))"












section \<open>Retrieval by ids\<close>

text \<open>
  \<^verbatim>\<open>StridedTensor\<close> comes from the module \<^verbatim>\<open>utils\<close>. Its \<^verbatim>\<open>lookup(ids, output='padded')[0]\<close>
  is a parameter here, one function for each of the four strided tensors that
  \<^verbatim>\<open>load_index\<close> builds: keys and values of shape \<open>(batch, seq_len, n_heads, dim)\<close>, tokens
  and ids of shape \<open>(batch, seq_len)\<close>. The store has them (\<open>Some\<close>) once
  \<^verbatim>\<open>load_index(build_offset=True)\<close> has run.
\<close>

record 'f strided_tensors =
  keys_lookup :: "int list \<Rightarrow> error + 'f tensor4"
  values_lookup :: "int list \<Rightarrow> error + 'f tensor4"
  tokens_lookup :: "int list \<Rightarrow> error + int tensor2"
  ids_lookup :: "int list \<Rightarrow> error + int tensor2"

text \<open>The slices \<^verbatim>\<open>t[:, 1:]\<close> and \<^verbatim>\<open>t[:, :n]\<close>, and the permutations of the two shapes.\<close>

definition drop_first4 :: "'a tensor4 \<Rightarrow> 'a tensor4" where
  "drop_first4 t =
     (case shape t of (b, s, h, d) \<Rightarrow> \<lparr>shape = (b, s - 1, h, d), body = map (drop 1) (body t)\<rparr>)"

definition drop_first2 :: "'a tensor2 \<Rightarrow> 'a tensor2" where
  "drop_first2 t =
     (case shape t of (b, s) \<Rightarrow> \<lparr>shape = (b, s - 1), body = map (drop 1) (body t)\<rparr>)"

definition truncate4 :: "int \<Rightarrow> 'a tensor4 \<Rightarrow> 'a tensor4" where
  "truncate4 n t =
     (case shape t of (b, s, h, d) \<Rightarrow>
        \<lparr>shape = (b, py_index n s, h, d), body = map (take (py_index n s)) (body t)\<rparr>)"

definition truncate2 :: "int \<Rightarrow> 'a tensor2 \<Rightarrow> 'a tensor2" where
  "truncate2 n t =
     (case shape t of (b, s) \<Rightarrow>
        \<lparr>shape = (b, py_index n s), body = map (take (py_index n s)) (body t)\<rparr>)"

text \<open>\<^verbatim>\<open>t.permute(2, 0, 1, 3)\<close>: from \<open>(batch, len, n_heads, dim)\<close> to \<open>(n_heads, batch, len, dim)\<close>.\<close>

definition permute_2013 :: "'a tensor4 \<Rightarrow> 'a tensor4" where
  "permute_2013 t =
     (case shape t of (b, s, h, d) \<Rightarrow>
        \<lparr>shape = (h, b, s, d),
         body = map (\<lambda>i. map (\<lambda>rows. map (\<lambda>r. r ! i) rows) (body t)) [0 ..< h]\<rparr>)"

text \<open>\<^verbatim>\<open>t.unsqueeze(0).repeat(n, 1, 1)\<close>; a negative number of repeats is refused by torch.\<close>

definition repeat_heads :: "int \<Rightarrow> 'a tensor2 \<Rightarrow> 'a tensor3" where
  "repeat_heads n t =
     (case shape t of (b, s) \<Rightarrow> \<lparr>shape = (nat n, b, s), body = replicate (nat n) (body t)\<rparr>)"

text \<open>The four lookups of lines 254--258.\<close>

definition lookup_all ::
  "'f strided_tensors \<Rightarrow> int list \<Rightarrow> bool
     \<Rightarrow> error + ('f tensor4 \<times> 'f tensor4 \<times> (int tensor2 \<times> int tensor2) option)" where
  "lookup_all st idl return_all =
     (case keys_lookup st idl of
        Inl e \<Rightarrow> Inl e
      | Inr ks \<Rightarrow>
         (case values_lookup st idl of
            Inl e \<Rightarrow> Inl e
          | Inr vs \<Rightarrow>
             (if \<not> return_all then Inr (ks, vs, None)
              else (case tokens_lookup st idl of
                      Inl e \<Rightarrow> Inl e
                    | Inr ts \<Rightarrow>
                       (case ids_lookup st idl of
                          Inl e \<Rightarrow> Inl e
                        | Inr is \<Rightarrow> Inr (ks, vs, Some (ts, is)))))))"

text \<open>
  Lines 265--287 after the assertions: drop the first position, truncate to
  \<^verbatim>\<open>max_length\<close> when the keys are longer, permute the heads to the front.
\<close>

definition shape_by_ids ::
  "int \<Rightarrow> int \<Rightarrow> bool \<Rightarrow> 'f tensor4 \<Rightarrow> 'f tensor4 \<Rightarrow> (int tensor2 \<times> int tensor2) option \<Rightarrow> 'f knns" where
  "shape_by_ids nheads max_length skip_first ks vs tsis =
     (let ks1 = (if skip_first then drop_first4 ks else ks);
          vs1 = (if skip_first then drop_first4 vs else vs);
          tsis1 = (if skip_first then map_option (\<lambda>(t, i). (drop_first2 t, drop_first2 i)) tsis
                   else tsis);
          long = (int (fst (snd (shape ks1))) > max_length);
          ks2 = (if long then truncate4 max_length ks1 else ks1);
          vs2 = (if long then truncate4 max_length vs1 else vs1);
          tsis2 = (if long
                   then map_option (\<lambda>(t, i). (truncate2 max_length t, truncate2 max_length i)) tsis1
                   else tsis1)
      in (permute_2013 ks2, permute_2013 vs2,
          map_option (\<lambda>(t, i). repeat_heads nheads t) tsis2,
          map_option (\<lambda>(t, i). repeat_heads nheads i) tsis2))"

definition get_knns_by_ids ::
  "'f MemTransDatastore \<Rightarrow> 'f strided_tensors option \<Rightarrow> int list \<Rightarrow> int \<Rightarrow> bool \<Rightarrow> bool
     \<Rightarrow> error + 'f knns" where
  "get_knns_by_ids self strided idl max_length skip_first return_all =
     (case strided of
        None \<Rightarrow> Inl AttributeError
      | Some st \<Rightarrow>
         (case lookup_all st idl return_all of
            Inl e \<Rightarrow> Inl e
          | Inr (ks, vs, tsis) \<Rightarrow>
             (if fst (snd (shape ks)) \<noteq> fst (snd (shape vs))
                 \<or> (case tsis of
                       None \<Rightarrow> False
                     | Some (t, i) \<Rightarrow> fst (snd (shape vs)) \<noteq> snd (shape t) \<or> snd (shape t) \<noteq> snd (shape i))
              then Inl AssertionError
              else if tsis \<noteq> None \<and> n_heads self < 0 then Inl RuntimeError
              else Inr (shape_by_ids (n_heads self) max_length skip_first ks vs tsis))))"

section \<open>MemTransAttn.retrieve\<close>

text \<open>
  Lines 421--427: the \<open>topk\<close> that the retrieval of this call uses. \<^verbatim>\<open>self.skip_retrieval_steps
  and key_length <= self.skip_retrieval_steps\<close> is true when the number of steps is not 0
  and the key length does not exceed it.
\<close>

definition skip_for_retrieval :: "'f MemTransAttn \<Rightarrow> int \<Rightarrow> bool" where
  "skip_for_retrieval self key_length =
     (skip_retrieval_steps self \<noteq> 0 \<and> key_length \<le> skip_retrieval_steps self)"

definition effective_topk :: "'f MemTransAttn \<Rightarrow> nat \<Rightarrow> int \<Rightarrow> int" where
  "effective_topk self sl key_length =
     (let k0 = topk self;
          k1 = (if sl > 1 then min (topk self) 0 else k0)
      in if skip_for_retrieval self key_length then 0 else k1)"

text \<open>Lines 429--430: the example ids of the batch, unless the caller gave them.\<close>

definition retrieve_ids :: "'f MemTransAttn \<Rightarrow> nat \<Rightarrow> int list option \<Rightarrow> int list" where
  "retrieve_ids self bs ids_arg =
     (case ids_arg of None \<Rightarrow> map (\<lambda>j. int j + id_offset self) [0 ..< bs] | Some given \<Rightarrow> given)"

text \<open>
  Lines 432--442: the cached result, a lookup by ids (which fills or clears the cache)
  or a search of the indices. The last component is the log of \<^verbatim>\<open>index.search\<close> calls.
\<close>

definition retrieve_knns ::
  "'f::zero MemTransAttn \<Rightarrow> 'f ann_index list option \<Rightarrow> 'f strided_tensors option \<Rightarrow> 'f tensor3
     \<Rightarrow> nat \<Rightarrow> int \<Rightarrow> int list
     \<Rightarrow> 'f MemTransAttn \<times> (error + 'f knns) \<times> (nat \<times> int) list" where
  "retrieve_knns self indices strided queries sl key_length idl =
     (if by_ids self \<and> sl = 1 then
        (if \<not> skip_for_retrieval self key_length \<and> by_ids_cache self \<noteq> None
         then (self, Inr (the (by_ids_cache self)), [])
         else
           (case get_knns_by_ids (dstore self) strided idl (effective_topk self sl key_length)
                   (skip_first_token self) (is_track self) of
              Inl e \<Rightarrow> (self, Inl e, [])
            | Inr r \<Rightarrow>
               (self\<lparr>by_ids_cache := (if \<not> skip_for_retrieval self key_length then Some r else None)\<rparr>,
                Inr r, [])))
      else
        (case get_knns (dstore self) indices queries (effective_topk self sl key_length) (is_track self) of
           (r, log) \<Rightarrow> (self, r, log)))"

text \<open>\<^verbatim>\<open>t.permute(1, 0, 2)\<close>: from \<open>(n_heads, batch, topk)\<close> to \<open>(batch, n_heads, topk)\<close>.\<close>

definition permute_102 :: "'a tensor3 \<Rightarrow> 'a tensor3" where
  "permute_102 t =
     (case shape t of (h, b, k) \<Rightarrow>
        \<lparr>shape = (b, h, k), body = map (\<lambda>i. map (\<lambda>rows. rows ! i) (body t)) [0 ..< b]\<rparr>)"

text \<open>
  Lines 445--453: a single-token call records a step (the prediction is the decoder
  input of shape \<open>(batch_size, 1)\<close>, squeezed), a multi-token call writes the buffer.
\<close>

definition track_retrieval ::
  "'f MemTransAttn \<Rightarrow> nat \<Rightarrow> 'f knns \<Rightarrow> 'f MemTransAttn \<times> error option" where
  "track_retrieval self sl ret =
     (if \<not> is_track self then (self, None)
      else if tracker self = None then (self, Some AttributeError)
      else if sl = 1 then
        (case ret of (ks, vs, ts, is) \<Rightarrow>
           if decoder_input_ids (dstore self) = None \<or> ts = None \<or> is = None
           then (self, Some AttributeError)
           else
             (case add_single_step_batched (the (tracker self))
                     (concat (the (decoder_input_ids (dstore self))))
                     (permute_102 (the ts)) (permute_102 (the is)) of
                (t, r) \<Rightarrow> (self\<lparr>tracker := Some t\<rparr>, r)))
      else
        (case tracker_write (the (tracker self)) of
           (t, r) \<Rightarrow> (self\<lparr>tracker := Some t\<rparr>, r)))"

text \<open>
  Lines 459--463: \<^verbatim>\<open>view(nh, bs, sl, actual_topk, d)\<close> and \<^verbatim>\<open>permute(1, 0, 2, 3, 4)\<close>. The
  retrieved tensor has shape \<open>(nh, bs * sl, actual_topk, d)\<close> when the store has the
  heads and the dimension of the queries; another shape is taken to be refused by
  \<^verbatim>\<open>view\<close> (it is whenever the number of entries differs).
\<close>

definition view_retrieved :: "nat \<Rightarrow> nat \<Rightarrow> nat \<Rightarrow> nat \<Rightarrow> 'a tensor4 \<Rightarrow> error + 'a tensor5" where
  "view_retrieved bs nh sl d t =
     (case shape t of (a, n, k, dd) \<Rightarrow>
        if a = nh \<and> n = bs * sl \<and> dd = d
        then Inr \<lparr>shape = (bs, nh, sl, k, d),
                  body = map (\<lambda>b. map (\<lambda>h. map (\<lambda>s. body t ! h ! (b * sl + s)) [0 ..< sl]) [0 ..< nh])
                           [0 ..< bs]\<rparr>
        else Inl RuntimeError)"

text \<open>Lines 455--464, after retrieval and tracking went through.\<close>

definition retrieve_finish ::
  "'f MemTransAttn \<Rightarrow> 'f tensor4 \<Rightarrow> 'f knns
     \<Rightarrow> 'f MemTransAttn \<times> (error + 'f tensor5 \<times> 'f tensor5)" where
  "retrieve_finish self query_states ret =
     (case shape query_states of (bs, nh, sl, d) \<Rightarrow>
      case ret of (ks, vs, ts, is) \<Rightarrow>
        (let self1 = (if sl > 1 then self\<lparr>id_offset := id_offset self + int bs, by_ids_cache := None\<rparr>
                      else self)
         in (self1,
             (case view_retrieved bs nh sl d ks of
                Inl e \<Rightarrow> Inl e
              | Inr rk \<Rightarrow>
                 (case view_retrieved bs nh sl d vs of
                    Inl e \<Rightarrow> Inl e
                  | Inr rv \<Rightarrow> Inr (rk, rv))))))"

text \<open>
  \<^verbatim>\<open>retrieve\<close> (lines 412--464): the state it leaves, its result or the exception it
  raised, and the log of \<^verbatim>\<open>index.search\<close> calls.
\<close>

definition retrieve ::
  "'f::zero MemTransAttn \<Rightarrow> 'f ann_index list option \<Rightarrow> 'f strided_tensors option \<Rightarrow> 'f tensor4
     \<Rightarrow> int \<Rightarrow> int list option
     \<Rightarrow> 'f MemTransAttn \<times> (error + 'f tensor5 \<times> 'f tensor5) \<times> (nat \<times> int) list" where
  "retrieve self indices strided query_states key_length ids_arg =
     (case shape query_states of (bs, nh, sl, d) \<Rightarrow>
        (case retrieve_knns self indices strided (heads_first query_states) sl key_length
                (retrieve_ids self bs ids_arg) of
           (self1, Inl e, log) \<Rightarrow> (self1, Inl e, log)
         | (self1, Inr ret, log) \<Rightarrow>
            (case track_retrieval self1 sl ret of
               (self2, Some e) \<Rightarrow> (self2, Inl e, log)
             | (self2, None) \<Rightarrow>
                (case retrieve_finish self2 query_states ret of
                   (self3, r) \<Rightarrow> (self3, r, log)))))"


section \<open>Attention\<close>

text \<open>
  The host attention module (\<^verbatim>\<open>T5Attention\<close> of the transformers library) with the
  fields the code reads. Its floating-point kernels are parameters, each a function of
  its arguments: the projections \<^verbatim>\<open>self.q\<close>, \<^verbatim>\<open>self.k\<close>, \<^verbatim>\<open>self.v\<close>, \<^verbatim>\<open>self.o\<close>, the
  reshaping of \<^verbatim>\<open>shape\<close> and \<^verbatim>\<open>unshape\<close>, \<^verbatim>\<open>compute_bias(query_length, key_length)\<close>,
  \<^verbatim>\<open>torch.matmul(a, b.transpose(3, 2))\<close>, \<^verbatim>\<open>torch.matmul(a, b)\<close>, the broadcasting sum,
  the softmax over the last dimension in float32, dropout (the identity outside
  training; in training one fixed random draw), the product with a head mask and the
  two \<^verbatim>\<open>einsum\<close> contractions of the multi-token path.
\<close>

record 'f T5Attention =
  has_relative_attention_bias :: bool
  is_decoder :: bool
  t5_n_heads :: nat
  compute_bias :: "nat \<Rightarrow> nat \<Rightarrow> 'f tensor4"
  q_proj :: "'f tensor3 \<Rightarrow> 'f tensor3"
  k_proj :: "'f tensor3 \<Rightarrow> 'f tensor3"
  v_proj :: "'f tensor3 \<Rightarrow> 'f tensor3"
  o_proj :: "'f tensor3 \<Rightarrow> 'f tensor3"
  shape_heads :: "'f tensor3 \<Rightarrow> 'f tensor4"
  unshape :: "'f tensor4 \<Rightarrow> 'f tensor3"
  matmul_transposed :: "'f tensor4 \<Rightarrow> 'f tensor4 \<Rightarrow> 'f tensor4"
  matmul :: "'f tensor4 \<Rightarrow> 'f tensor4 \<Rightarrow> 'f tensor4"
  tensor_add :: "'f tensor4 \<Rightarrow> 'f tensor4 \<Rightarrow> 'f tensor4"
  softmax :: "'f tensor4 \<Rightarrow> 'f tensor4"
  dropout :: "'f tensor4 \<Rightarrow> 'f tensor4"
  head_mask_mul :: "'f tensor4 \<Rightarrow> 'f tensor4 \<Rightarrow> 'f tensor4"
  einsum_scores :: "'f tensor4 \<Rightarrow> 'f tensor5 \<Rightarrow> 'f tensor4"
  einsum_output :: "'f tensor4 \<Rightarrow> 'f tensor5 \<Rightarrow> 'f tensor4"

definition wf5 :: "'a tensor5 \<Rightarrow> bool" where
  "wf5 t = (case shape t of (a, b, c, d, e) \<Rightarrow>
     length (body t) = a \<and>
     list_all (\<lambda>x. length x = b \<and>
       list_all (\<lambda>y. length y = c \<and>
         list_all (\<lambda>z. length z = d \<and> list_all (\<lambda>w. length w = e) z) y) x) (body t))"

text \<open>
  \<^verbatim>\<open>torch.cat([a, b], dim=2)\<close> and \<^verbatim>\<open>torch.cat([a, b], dim=3)\<close> on four-dimensional
  tensors: the other dimensions must agree, else torch raises RuntimeError.
\<close>

definition cat_dim2 :: "'a tensor4 \<Rightarrow> 'a tensor4 \<Rightarrow> error + 'a tensor4" where
  "cat_dim2 a b =
     (case shape a of (a0, a1, a2, a3) \<Rightarrow>
      case shape b of (b0, b1, b2, b3) \<Rightarrow>
        if a0 = b0 \<and> a1 = b1 \<and> a3 = b3
        then Inr \<lparr>shape = (a0, a1, a2 + b2, a3),
                  body = map (\<lambda>(x, y). map (\<lambda>(u, v). u @ v) (zip x y)) (zip (body a) (body b))\<rparr>
        else Inl RuntimeError)"

definition cat_dim3 :: "'a tensor4 \<Rightarrow> 'a tensor4 \<Rightarrow> error + 'a tensor4" where
  "cat_dim3 a b =
     (case shape a of (a0, a1, a2, a3) \<Rightarrow>
      case shape b of (b0, b1, b2, b3) \<Rightarrow>
        if a0 = b0 \<and> a1 = b1 \<and> a2 = b2
        then Inr \<lparr>shape = (a0, a1, a2, a3 + b3),
                  body = map (\<lambda>(x, y). map (\<lambda>(u, v). map (\<lambda>(r, q). r @ q) (zip u v)) (zip x y))
                           (zip (body a) (body b))\<rparr>
        else Inl RuntimeError)"

text \<open>The slices \<^verbatim>\<open>t[:, :, lo:hi]\<close> and \<^verbatim>\<open>t[:, :, :, lo:hi]\<close> with Python's bounds.\<close>

definition slice_dim2 :: "int option \<Rightarrow> int option \<Rightarrow> 'a tensor4 \<Rightarrow> 'a tensor4" where
  "slice_dim2 lo hi t =
     (case shape t of (a0, a1, a2, a3) \<Rightarrow>
        (let start = (case lo of None \<Rightarrow> 0 | Some i \<Rightarrow> py_index i a2);
             stop = (case hi of None \<Rightarrow> a2 | Some i \<Rightarrow> py_index i a2)
         in \<lparr>shape = (a0, a1, stop - start, a3),
             body = map (map (\<lambda>rows. take (stop - start) (drop start rows))) (body t)\<rparr>))"

definition slice_dim3 :: "int option \<Rightarrow> int option \<Rightarrow> 'a tensor4 \<Rightarrow> 'a tensor4" where
  "slice_dim3 lo hi t =
     (case shape t of (a0, a1, a2, a3) \<Rightarrow>
        (let start = (case lo of None \<Rightarrow> 0 | Some i \<Rightarrow> py_index i a3);
             stop = (case hi of None \<Rightarrow> a3 | Some i \<Rightarrow> py_index i a3)
         in \<lparr>shape = (a0, a1, a2, stop - start),
             body = map (map (map (\<lambda>row. take (stop - start) (drop start row)))) (body t)\<rparr>))"

text \<open>\<^verbatim>\<open>t.squeeze(2)\<close> on a five-dimensional tensor whose third dimension is 1.\<close>

definition squeeze2 :: "'a tensor5 \<Rightarrow> 'a tensor4" where
  "squeeze2 t =
     (case shape t of (a0, a1, a2, a3, a4) \<Rightarrow>
        \<lparr>shape = (a0, a1, a3, a4), body = map (map concat) (body t)\<rparr>)"

definition zeros4 :: "nat \<times> nat \<times> nat \<times> nat \<Rightarrow> 'f::zero tensor4" where
  "zeros4 sh =
     (case sh of (a0, a1, a2, a3) \<Rightarrow>
        \<lparr>shape = sh, body = replicate a0 (replicate a1 (replicate a2 (replicate a3 0)))\<rparr>)"

text \<open>\<^verbatim>\<open>update_mask_and_position_bias\<close> (lines 466--490).\<close>

definition update_mask_and_position_bias ::
  "'f::zero T5Attention \<Rightarrow> 'f tensor4 option \<Rightarrow> nat \<Rightarrow> nat \<Rightarrow> nat \<Rightarrow> nat \<Rightarrow> error + 'f tensor4" where
  "update_mask_and_position_bias ori_attn msk seq_length real_seq_length key_length k =
     (let bias = slice_dim2 (Some (- int seq_length)) None
                   (compute_bias ori_attn (k + real_seq_length) (k + key_length))
      in case msk of
           None \<Rightarrow> Inr bias
         | Some m \<Rightarrow>
            (case shape m of (m0, m1, m2, m3) \<Rightarrow>
               (case cat_dim3 (zeros4 (m0, m1, m2, k)) m of
                  Inl e \<Rightarrow> Inl e
                | Inr ext \<Rightarrow> Inr (tensor_add ori_attn bias ext))))"

text \<open>\<^verbatim>\<open>init_position_bias\<close> (lines 497--524); \<open>past\<close> tells whether \<^verbatim>\<open>past_key_value\<close> is given.\<close>

definition init_position_bias ::
  "'f::zero T5Attention \<Rightarrow> bool \<Rightarrow> 'f tensor4 option \<Rightarrow> nat \<Rightarrow> nat \<Rightarrow> nat \<Rightarrow> 'f tensor4" where
  "init_position_bias ori_attn past msk real_seq_length key_length seq_length =
     (let bias0 = (if \<not> has_relative_attention_bias ori_attn
                   then zeros4 (1, t5_n_heads ori_attn, real_seq_length, key_length)
                   else compute_bias ori_attn real_seq_length key_length);
          bias1 = (if past then slice_dim2 (Some (- int seq_length)) None bias0 else bias0)
      in case msk of None \<Rightarrow> bias1 | Some m \<Rightarrow> tensor_add ori_attn bias1 m)"

text \<open>
  \<^verbatim>\<open>original_attn\<close> (lines 526--569): the attention weights, the attention output and
  the position bias.
\<close>

definition original_attn ::
  "'f::zero T5Attention \<Rightarrow> 'f tensor4 \<Rightarrow> 'f tensor4 \<Rightarrow> 'f tensor4 \<Rightarrow> bool \<Rightarrow> 'f tensor4 option
     \<Rightarrow> 'f tensor4 option \<Rightarrow> 'f tensor4 option \<Rightarrow> nat \<Rightarrow> nat
     \<Rightarrow> 'f tensor4 \<times> 'f tensor3 \<times> 'f tensor4" where
  "original_attn ori_attn query_states key_states value_states past position_bias msk
       layer_head_mask real_seq_length key_length =
     (let scores = matmul_transposed ori_attn query_states key_states;
          bias = (case position_bias of
                    None \<Rightarrow> init_position_bias ori_attn past msk real_seq_length key_length
                               (fst (snd (snd (shape query_states))))
                  | Some pb \<Rightarrow> pb);
          weights0 = dropout ori_attn (softmax ori_attn (tensor_add ori_attn scores bias));
          weights = (case layer_head_mask of
                       None \<Rightarrow> weights0
                     | Some hm \<Rightarrow> head_mask_mul ori_attn weights0 hm)
      in (weights, o_proj ori_attn (unshape ori_attn (matmul ori_attn weights value_states)), bias))"

text \<open>
  \<^verbatim>\<open>attn\<close>, the single-token path (lines 628--658): the retrieved keys and values are
  put in front of the local ones, or after the first local position when
  \<^verbatim>\<open>add_after_first\<close> is set and there is more than one key.
\<close>

definition prepend_retrieved ::
  "bool \<Rightarrow> 'f tensor4 \<Rightarrow> 'f tensor4 \<Rightarrow> error + 'f tensor4" where
  "prepend_retrieved after_first ret states =
     (if after_first
      then (case cat_dim2 (slice_dim2 None (Some 1) states) ret of
              Inl e \<Rightarrow> Inl e
            | Inr front \<Rightarrow> cat_dim2 front (slice_dim2 (Some 1) None states))
      else cat_dim2 ret states)"

definition attn_decode ::
  "'f::zero MemTransAttn \<Rightarrow> 'f T5Attention \<Rightarrow> 'f tensor4 \<Rightarrow> 'f tensor4 \<Rightarrow> 'f tensor4
     \<Rightarrow> 'f tensor5 \<Rightarrow> 'f tensor5 \<Rightarrow> 'f tensor4 option \<Rightarrow> nat \<Rightarrow> nat
     \<Rightarrow> error + 'f tensor4 \<times> 'f tensor3" where
  "attn_decode self ori_attn query_states key_states value_states ret_ks ret_vs msk
       real_seq_length key_length =
     (let sl = fst (snd (snd (shape query_states)));
          k = fst (snd (snd (snd (shape ret_ks))))
      in if sl \<noteq> 1 then Inl AssertionError
         else if \<not> (fst (snd (snd (shape ret_ks))) = fst (snd (snd (shape ret_vs)))
                    \<and> fst (snd (snd (shape ret_vs))) = sl) then Inl AssertionError
         else if real_seq_length \<noteq> key_length then Inl AssertionError
         else
          (case prepend_retrieved (add_after_first self \<and> key_length > 1) (squeeze2 ret_ks) key_states of
             Inl e \<Rightarrow> Inl e
           | Inr ks \<Rightarrow>
              (case prepend_retrieved (add_after_first self \<and> key_length > 1) (squeeze2 ret_vs) value_states of
                 Inl e \<Rightarrow> Inl e
               | Inr vs \<Rightarrow>
                  (case update_mask_and_position_bias ori_attn msk sl real_seq_length key_length k of
                     Inl e \<Rightarrow> Inl e
                   | Inr bias \<Rightarrow>
                      (let weights = dropout ori_attn (softmax ori_attn
                             (tensor_add ori_attn (matmul_transposed ori_attn query_states ks) bias))
                       in Inr (weights,
                               o_proj ori_attn (unshape ori_attn (matmul ori_attn weights vs))))))))"

text \<open>\<^verbatim>\<open>attn\<close>, the multi-token path (lines 592--626).\<close>

definition attn_eval ::
  "'f::zero MemTransAttn \<Rightarrow> 'f T5Attention \<Rightarrow> 'f tensor4 \<Rightarrow> 'f tensor4 \<Rightarrow> 'f tensor4
     \<Rightarrow> 'f tensor5 \<Rightarrow> 'f tensor5 \<Rightarrow> 'f tensor4 option \<Rightarrow> nat \<Rightarrow> nat
     \<Rightarrow> error + 'f tensor4 \<times> 'f tensor3" where
  "attn_eval self ori_attn query_states key_states value_states ret_ks ret_vs msk
       real_seq_length key_length =
     (let sl = fst (snd (snd (shape query_states)));
          kl = fst (snd (snd (shape key_states)));
          k = fst (snd (snd (snd (shape ret_ks))))
      in if \<not> (sl = kl \<and> kl = real_seq_length \<and> real_seq_length = key_length)
         then Inl AssertionError
         else
          (case cat_dim3 (einsum_scores ori_attn query_states ret_ks)
                  (matmul_transposed ori_attn query_states key_states) of
             Inl e \<Rightarrow> Inl e
           | Inr scores \<Rightarrow>
              (case update_mask_and_position_bias ori_attn msk sl real_seq_length key_length k of
                 Inl e \<Rightarrow> Inl e
               | Inr bias \<Rightarrow>
                  (let weights = dropout ori_attn (softmax ori_attn (tensor_add ori_attn scores bias))
                   in Inr (weights,
                           o_proj ori_attn (unshape ori_attn
                             (tensor_add ori_attn
                                (matmul ori_attn (slice_dim3 (Some (- int kl)) None weights) value_states)
                                (einsum_output ori_attn (slice_dim3 None (Some (int k)) weights) ret_vs))))))))"

text \<open>\<^verbatim>\<open>attn\<close> (lines 571--660): the attention weights and the attention output.\<close>

definition attn ::
  "'f::zero MemTransAttn \<Rightarrow> 'f T5Attention \<Rightarrow> 'f tensor4 \<Rightarrow> 'f tensor4 \<Rightarrow> 'f tensor4
     \<Rightarrow> 'f tensor5 \<Rightarrow> 'f tensor5 \<Rightarrow> 'f tensor4 option \<Rightarrow> 'f tensor4 option \<Rightarrow> nat \<Rightarrow> nat
     \<Rightarrow> error + 'f tensor4 \<times> 'f tensor3" where
  "attn self ori_attn query_states key_states value_states ret_ks ret_vs msk layer_head_mask
       real_seq_length key_length =
     (if layer_head_mask \<noteq> None then Inl NotImplementedError
      else if fst (snd (snd (shape query_states))) > 1
      then attn_eval self ori_attn query_states key_states value_states ret_ks ret_vs msk
             real_seq_length key_length
      else attn_decode self ori_attn query_states key_states value_states ret_ks ret_vs msk
             real_seq_length key_length)"


section \<open>The patched forward pass of the attention layer\<close>

text \<open>
  Lines 680--690 of \<^verbatim>\<open>t5attetnion_forward\<close>: \<open>real_seq_length\<close> and \<open>key_length\<close> from the
  sequence length of the hidden states, the length of the cached keys (when
  \<^verbatim>\<open>past_key_value\<close> is given), \<^verbatim>\<open>query_length\<close> and the length of \<^verbatim>\<open>key_value_states\<close>.
\<close>

definition forward_lengths :: "nat \<Rightarrow> nat option \<Rightarrow> nat option \<Rightarrow> nat option \<Rightarrow> nat \<times> nat" where
  "forward_lengths seq_length past_length query_length kv_length =
     (let real_seq_length =
            (case past_length of
               None \<Rightarrow> seq_length
             | Some p \<Rightarrow> seq_length + (case query_length of None \<Rightarrow> p | Some q \<Rightarrow> q))
      in (real_seq_length, case kv_length of None \<Rightarrow> real_seq_length | Some k \<Rightarrow> k))"

text \<open>\<^verbatim>\<open>project\<close> (lines 700--719).\<close>

definition project ::
  "'f T5Attention \<Rightarrow> ('f tensor3 \<Rightarrow> 'f tensor3) \<Rightarrow> 'f tensor3 \<Rightarrow> 'f tensor3 option
     \<Rightarrow> 'f tensor4 option \<Rightarrow> error + 'f tensor4" where
  "project self proj_layer hidden_states key_value_states past =
     (case key_value_states of
        None \<Rightarrow>
          (case past of
             None \<Rightarrow> Inr (shape_heads self (proj_layer hidden_states))
           | Some p \<Rightarrow> cat_dim2 p (shape_heads self (proj_layer hidden_states)))
      | Some kv \<Rightarrow>
          (case past of
             None \<Rightarrow> Inr (shape_heads self (proj_layer kv))
           | Some p \<Rightarrow> Inr p))"

text \<open>The tuple that the forward pass returns; \<open>attn_weights\<close> only with \<^verbatim>\<open>output_attentions\<close>.\<close>

record 'f forward_outputs =
  attn_output :: "'f tensor3"
  present_key_value_state :: "('f tensor4 \<times> 'f tensor4) option"
  position_bias :: "'f tensor4"
  attn_weights :: "'f tensor4 option"

text \<open>
  Lines 732--752: the three branches on \<^verbatim>\<open>self.mta.stage\<close>. The result is the
  \<^verbatim>\<open>MemTransAttn\<close> as the branch leaves it, then the weights, the output and the position
  bias or the exception, then the log of \<^verbatim>\<open>index.search\<close> calls.
\<close>

definition forward_stage ::
  "'f::zero T5Attention \<Rightarrow> 'f MemTransAttn \<Rightarrow> 'f ann_index list option \<Rightarrow> 'f strided_tensors option
     \<Rightarrow> 'f tensor4 \<Rightarrow> 'f tensor4 \<Rightarrow> 'f tensor4 \<Rightarrow> bool \<Rightarrow> 'f tensor4 option \<Rightarrow> 'f tensor4 option
     \<Rightarrow> 'f tensor4 option \<Rightarrow> nat \<Rightarrow> nat
     \<Rightarrow> 'f MemTransAttn \<times> (error + 'f tensor4 \<times> 'f tensor3 \<times> 'f tensor4) \<times> (nat \<times> int) list" where
  "forward_stage self mta indices strided query_states key_states value_states past pbias msk
       layer_head_mask real_seq_length key_length =
     (if stage mta = ''save'' then
        (case save mta key_states value_states of
           (mta1, Some e) \<Rightarrow> (mta1, Inl e, [])
         | (mta1, None) \<Rightarrow>
             (mta1, Inr (original_attn self query_states key_states value_states past pbias msk
                           layer_head_mask real_seq_length key_length), []))
      else if stage mta = ''retrieve'' then
        (case retrieve mta indices strided query_states (int key_length) None of
           (mta1, Inl e, log) \<Rightarrow> (mta1, Inl e, log)
         | (mta1, Inr (ret_ks, ret_vs), log) \<Rightarrow>
             (case attn mta1 self query_states key_states value_states ret_ks ret_vs msk
                     layer_head_mask real_seq_length key_length of
                Inl e \<Rightarrow> (mta1, Inl e, log)
              | Inr (w, out) \<Rightarrow>
                  (mta1,
                   Inr (w, out,
                        (case pbias of
                           None \<Rightarrow> init_position_bias self past msk real_seq_length key_length
                                      (fst (snd (snd (shape query_states))))
                         | Some pb \<Rightarrow> pb)), log)))
      else
        (mta, Inr (original_attn self query_states key_states value_states past pbias msk
                     layer_head_mask real_seq_length key_length), []))"

text \<open>
  \<^verbatim>\<open>t5attetnion_forward\<close> (lines 662--759). \<open>past_key_value\<close> is the pair of cached keys
  and values of shape \<open>(batch_size, n_heads, q_len - 1, dim_per_head)\<close>.
\<close>

definition t5attetnion_forward ::
  "'f::zero T5Attention \<Rightarrow> 'f MemTransAttn \<Rightarrow> 'f ann_index list option \<Rightarrow> 'f strided_tensors option
     \<Rightarrow> 'f tensor3 \<Rightarrow> 'f tensor4 option \<Rightarrow> 'f tensor3 option \<Rightarrow> 'f tensor4 option
     \<Rightarrow> ('f tensor4 \<times> 'f tensor4) option \<Rightarrow> 'f tensor4 option \<Rightarrow> nat option \<Rightarrow> bool \<Rightarrow> bool
     \<Rightarrow> 'f MemTransAttn \<times> (error + 'f forward_outputs) \<times> (nat \<times> int) list" where
  "t5attetnion_forward self mta indices strided hidden_states msk key_value_states pbias
       past_key_value layer_head_mask query_length use_cache output_attentions =
     (let seq_length = fst (snd (shape hidden_states));
          lens = forward_lengths seq_length
                   (map_option (\<lambda>(k, v). fst (snd (snd (shape k)))) past_key_value)
                   query_length
                   (map_option (\<lambda>kv. fst (snd (shape kv))) key_value_states);
          query_states = shape_heads self (q_proj self hidden_states)
      in case project self (k_proj self) hidden_states key_value_states
                (map_option fst past_key_value) of
           Inl e \<Rightarrow> (mta, Inl e, [])
         | Inr key_states \<Rightarrow>
            (case project self (v_proj self) hidden_states key_value_states
                    (map_option snd past_key_value) of
               Inl e \<Rightarrow> (mta, Inl e, [])
             | Inr value_states \<Rightarrow>
                (case forward_stage self mta indices strided query_states key_states value_states
                        (past_key_value \<noteq> None) pbias msk layer_head_mask (fst lens) (snd lens) of
                   (mta1, Inl e, log) \<Rightarrow> (mta1, Inl e, log)
                 | (mta1, Inr (w, out, pb), log) \<Rightarrow>
                    (mta1,
                     Inr \<lparr>attn_output = out,
                          present_key_value_state =
                            (if is_decoder self \<and> use_cache then Some (key_states, value_states)
                             else None),
                          position_bias = pb,
                          attn_weights = (if output_attentions then Some w else None)\<rparr>,
                     log))))"


section \<open>Properties of retrieve\<close>






























end
